theory Spec2Isabelle
  imports Complex_Main
begin

section \<open>Python values used by the scheduler\<close>

text \<open>
  A Python \<open>str\<close> is a sequence of Unicode code points, so it is modelled as a list of
  code points. The class delimiter U+3001 and the Chinese column names lie outside
  ASCII; they are written by their code points. \<open>ustr\<close> turns an ASCII literal into
  such a string.
\<close>

type_synonym pystr = "nat list"

definition ustr :: "string \<Rightarrow> pystr" where
  "ustr s = map of_char s"

text \<open>The code points for which \<open>str.isspace\<close> holds; \<open>str.strip()\<close> removes them.\<close>

definition isspace :: "nat \<Rightarrow> bool" where
  "isspace c \<longleftrightarrow>
     (9 \<le> c \<and> c \<le> 13) \<or> (28 \<le> c \<and> c \<le> 32) \<or> c = 133 \<or> c = 160 \<or> c = 5760 \<or>
     (8192 \<le> c \<and> c \<le> 8202) \<or> c = 8232 \<or> c = 8233 \<or> c = 8239 \<or> c = 8287 \<or> c = 12288"

definition str_strip :: "pystr \<Rightarrow> pystr" where
  "str_strip s = rev (dropWhile isspace (rev (dropWhile isspace s)))"

text \<open>\<open>s.split(sep)\<close> for a separator of one code point: every occurrence cuts.\<close>

fun str_split :: "nat \<Rightarrow> pystr \<Rightarrow> pystr list" where
  "str_split sep [] = [[]]"
| "str_split sep (c # cs) =
     (if c = sep then [] # str_split sep cs
      else (case str_split sep cs of [] \<Rightarrow> [[c]] | p # ps \<Rightarrow> (c # p) # ps))"

fun str_join :: "pystr \<Rightarrow> pystr list \<Rightarrow> pystr" where
  "str_join sep [] = []"
| "str_join sep [x] = x"
| "str_join sep (x # y # ys) = x @ sep @ str_join sep (y # ys)"

text \<open>The decimal rendering of a non-negative integer inside an f-string.\<close>

function str_of_nat :: "nat \<Rightarrow> pystr" where
  "str_of_nat n = (if n < 10 then [48 + n] else str_of_nat (n div 10) @ [48 + n mod 10])"
  by pat_completeness auto
termination
  by (relation "measure id") auto

declare str_of_nat.simps [simp del]

text \<open>
  A \<open>dict\<close> keeps insertion order and has each key once: an association list in which
  assignment overwrites in place, or appends a new key. \<open>d.get(k, default)\<close> is
  \<open>dict_get\<close>.
\<close>

fun dict_set :: "('k \<times> 'v) list \<Rightarrow> 'k \<Rightarrow> 'v \<Rightarrow> ('k \<times> 'v) list" where
  "dict_set [] k v = [(k, v)]"
| "dict_set ((k', v') # kvs) k v =
     (if k' = k then (k, v) # kvs else (k', v') # dict_set kvs k v)"

definition dict_get :: "('k \<times> 'v) list \<Rightarrow> 'k \<Rightarrow> 'v \<Rightarrow> 'v" where
  "dict_get d k dflt = (case map_of d k of None \<Rightarrow> dflt | Some v \<Rightarrow> v)"

section \<open>Configuration\<close>

definition HOUR_PER_SLOT :: int where
  "HOUR_PER_SLOT = 2"

definition week_range :: "nat list" where
  "week_range = [1..<17]"

definition day_range :: "nat list" where
  "day_range = [1..<6]"

definition slot_range :: "nat list" where
  "slot_range = [1..<7]"

definition time_label :: "nat \<Rightarrow> nat \<Rightarrow> nat \<Rightarrow> pystr" where
  "time_label w d s =
     ustr ''Time_'' @ str_of_nat w @ ustr ''_'' @ str_of_nat d @ ustr ''_'' @ str_of_nat s"

definition TIMES :: "pystr list" where
  "TIMES = [time_label w d s. w \<leftarrow> week_range, d \<leftarrow> day_range, s \<leftarrow> slot_range]"

text \<open>
  The three constraint switches are module constants of the script; the model builder
  reads them. They are a parameter of the embedding so that every setting can be
  stated; \<open>source_toggles\<close> is the setting the script ships with.
\<close>

record toggles =
  ENABLE_TEACHER_CONSTRAINT :: bool
  ENABLE_CLASS_CONSTRAINT :: bool
  ENABLE_ROOM_CONSTRAINT :: bool

definition source_toggles :: toggles where
  "source_toggles =
     \<lparr>ENABLE_TEACHER_CONSTRAINT = False, ENABLE_CLASS_CONSTRAINT = True,
      ENABLE_ROOM_CONSTRAINT = False\<rparr>"

section \<open>Printed lines\<close>

text \<open>
  Each \<open>print\<close> of the script is one constructor, carrying the values the f-string
  interpolates; the fixed Chinese wording is left out. \<open>NoFeasibleAdvice\<close> stands for
  the four fixed lines printed when no solution was found ("still no feasible
  solution", followed by three suggestions).
\<close>

datatype gap_status = WithinCapacity | Shortfall int

datatype dimension = TeacherDim | ClassDim | RoomDim

datatype out_line =
    ValidationHeader
  | AdjustNote pystr int int
  | ResourceHeader nat
  | TotalDemand int
  | TotalGap int
  | TeacherHeader
  | TeacherLine pystr int gap_status
  | ClassHeader
  | ClassLine pystr int gap_status
  | ReadOk nat
  | ConstraintOn dimension
  | ConstraintOff dimension
  | SolveStatus string
  | NoFeasibleAdvice
  | ExcelSaved
  | TxtSaved

section \<open>Data preprocessing\<close>

text \<open>
  The six required columns:
  course name, teacher name, teaching-class composition, room category, total course
  hours, hour type.
\<close>

definition col_course_name :: pystr where
  "col_course_name = [0x8BFE, 0x7A0B, 0x540D, 0x79F0]"

definition col_teacher :: pystr where
  "col_teacher = [0x6559, 0x5E08, 0x540D, 0x79F0]"

definition col_classes :: pystr where
  "col_classes = [0x6559, 0x5B66, 0x73ED, 0x7EC4, 0x6210]"

definition col_room :: pystr where
  "col_room = [0x573A, 0x5730, 0x7C7B, 0x522B]"

definition col_total_hour :: pystr where
  "col_total_hour = [0x8BFE, 0x7A0B, 0x603B, 0x5B66, 0x65F6]"

definition col_hour_type :: pystr where
  "col_hour_type = [0x5B66, 0x65F6, 0x7C7B, 0x578B]"

definition core_cols :: "pystr list" where
  "core_cols =
     [col_course_name, col_teacher, col_classes, col_room, col_total_hour, col_hour_type]"


text \<open>
  The exceptions that can leave the script's functions: the \<open>ValueError\<close> that
  \<open>preprocess_data\<close> raises itself, carrying the missing columns; the
  \<open>AttributeError\<close> of calling \<open>.strip()\<close> on a cell that is not a \<open>str\<close>; the
  exception of \<open>int()\<close> on a cell it cannot convert (of class \<open>ValueError\<close>,
  \<open>TypeError\<close> or \<open>OverflowError\<close>, none carrying columns); and the \<open>PulpError\<close> that
  PuLP raises when a constraint is added under a name the problem already has,
  carrying that name. A function that raises returns \<open>Inl\<close> of the exception and of
  the lines it had printed until then.
\<close>

datatype error =
    ValueError "pystr list"
  | AttributeError
  | IntConversionError
  | PulpError pystr

text \<open>
  One sheet row, restricted to the required columns. A cell holds whatever pandas read
  from the sheet; the row loop applies exactly one operation to the cell of each
  column, so a cell is recorded by what that operation makes of it.

  \<^item> The name, teacher, room and hour-type cells are used as \<open>cell.strip()\<close>: the cell
    is missing (\<open>TextNaN\<close>), a \<open>str\<close> (\<open>TextStr\<close>), or some other object, such as a
    number or a date, which has no \<open>strip\<close> (\<open>TextOther\<close>).
  \<^item> The hours cell is used as \<open>int(cell)\<close>: the cell is missing (\<open>HourNaN\<close>), or
    \<open>int\<close> turns it into an integer (\<open>HourValue\<close>: an integer, a float, which is
    truncated, or a numeral string), or \<open>int\<close> raises on it (\<open>HourBad\<close>: any other
    string or object).
  \<^item> The class cell is used as \<open>str(cell)\<close>, which never raises: the cell is missing
    (\<open>None\<close>) or has the rendering given (\<open>Some\<close>).

  A missing cell is the float NaN, so \<open>.strip()\<close> and \<open>int()\<close> raise on it and
  \<open>str()\<close> renders it as \<open>nan\<close>.
\<close>

datatype text_cell = TextNaN | TextStr pystr | TextOther

datatype hour_cell = HourNaN | HourValue int | HourBad

record raw_row =
  cell_course_name :: text_cell
  cell_teacher :: text_cell
  cell_classes :: "pystr option"
  cell_room :: text_cell
  cell_total_hour :: hour_cell
  cell_hour_type :: text_cell

fun strip_cell :: "text_cell \<Rightarrow> error + pystr" where
  "strip_cell (TextStr s) = Inr (str_strip s)"
| "strip_cell TextNaN = Inl AttributeError"
| "strip_cell TextOther = Inl AttributeError"

fun int_cell :: "hour_cell \<Rightarrow> error + int" where
  "int_cell (HourValue n) = Inr n"
| "int_cell HourNaN = Inl IntConversionError"
| "int_cell HourBad = Inl IntConversionError"

fun str_cell :: "pystr option \<Rightarrow> pystr" where
  "str_cell (Some s) = s"
| "str_cell None = ustr ''nan''"

text \<open>\<open>df.dropna(subset=core_cols)\<close>: a row stays when none of the six cells is missing.\<close>

definition complete_row :: "raw_row \<Rightarrow> bool" where
  "complete_row r \<longleftrightarrow>
     cell_course_name r \<noteq> TextNaN \<and> cell_teacher r \<noteq> TextNaN \<and> cell_classes r \<noteq> None \<and>
     cell_room r \<noteq> TextNaN \<and> cell_total_hour r \<noteq> HourNaN \<and> cell_hour_type r \<noteq> TextNaN"

definition dropna :: "raw_row list \<Rightarrow> raw_row list" where
  "dropna rows = filter complete_row rows"

text \<open>The course identifier \<open>f"C{i + 1}"\<close> of the row at position \<open>i\<close>.\<close>

definition course_id :: "nat \<Rightarrow> pystr" where
  "course_id i = ustr ''C'' @ str_of_nat (i + 1)"

record course =
  name :: pystr
  teacher :: pystr
  classes :: "pystr list"
  room :: pystr
  total_hour :: int
  required_slots :: int
  hour_type :: pystr

type_synonym courses = "(pystr \<times> course) list"

definition delim_a :: nat where
  "delim_a = 0x3001"

definition delim_b :: nat where
  "delim_b = 0x2C"

text \<open>Splitting the class field (the \<open>if\<close>/\<open>elif\<close>/\<open>else\<close> of the row loop).\<close>

definition split_classes :: "pystr \<Rightarrow> pystr list" where
  "split_classes field =
     (let class_str = str_strip field in
      if delim_a \<in> set class_str then
        [str_strip cls. cls \<leftarrow> str_split delim_a class_str, str_strip cls \<noteq> []]
      else if delim_b \<in> set class_str then
        [str_strip cls. cls \<leftarrow> str_split delim_b class_str, str_strip cls \<noteq> []]
      else [class_str])"


text \<open>
  The body of the row loop. The state is the \<open>courses\<close> dictionary, the running
  \<open>total_required_slots\<close> and the lines printed so far. The statements run in the
  order of the source: the name is stripped, the hours are converted, the note is
  printed, the class field is split, and the teacher, room and hour-type cells are
  stripped while the dictionary entry is built; the first one that raises ends the
  loop.
\<close>

definition read_row ::
  "courses \<times> int \<times> out_line list \<Rightarrow> pystr \<times> raw_row \<Rightarrow>
   (error \<times> out_line list) + (courses \<times> int \<times> out_line list)" where
  "read_row st item =
     (case st of (courses, total_required_slots, printed) \<Rightarrow>
      case item of (cid, row) \<Rightarrow>
      case strip_cell (cell_course_name row) of
        Inl e \<Rightarrow> Inl (e, printed)
      | Inr course_name \<Rightarrow>
      case int_cell (cell_total_hour row) of
        Inl e \<Rightarrow> Inl (e, printed)
      | Inr hours \<Rightarrow>
        let total_hour = hours;
            adjust = (total_hour mod HOUR_PER_SLOT \<noteq> 0);
            required_slots =
              (if adjust then total_hour div HOUR_PER_SLOT + 1
               else total_hour div HOUR_PER_SLOT);
            printed = printed
              @ (if adjust then [AdjustNote course_name total_hour required_slots] else []);
            classes = split_classes (str_cell (cell_classes row))
        in
      case strip_cell (cell_teacher row) of
        Inl e \<Rightarrow> Inl (e, printed)
      | Inr tch \<Rightarrow>
      case strip_cell (cell_room row) of
        Inl e \<Rightarrow> Inl (e, printed)
      | Inr rm \<Rightarrow>
      case strip_cell (cell_hour_type row) of
        Inl e \<Rightarrow> Inl (e, printed)
      | Inr ty \<Rightarrow>
          Inr (dict_set courses cid
                 \<lparr>name = course_name, teacher = tch, classes = classes, room = rm,
                  total_hour = total_hour, required_slots = required_slots,
                  hour_type = ty\<rparr>,
               total_required_slots + required_slots, printed))"

fun read_rows ::
  "courses \<times> int \<times> out_line list \<Rightarrow> (pystr \<times> raw_row) list \<Rightarrow>
   (error \<times> out_line list) + (courses \<times> int \<times> out_line list)" where
  "read_rows st [] = Inr st"
| "read_rows st (item # items) =
     (case read_row st item of
        Inl e \<Rightarrow> Inl e
      | Inr st' \<Rightarrow> read_rows st' items)"

text \<open>The resource tally: one step per course, teachers first, then each listed class.\<close>

definition tally_course ::
  "(pystr \<times> int) list \<times> (pystr \<times> int) list \<Rightarrow> pystr \<times> course \<Rightarrow>
   (pystr \<times> int) list \<times> (pystr \<times> int) list" where
  "tally_course acc item =
     (case acc of (teachers, classes_dict) \<Rightarrow>
      let info = snd item in
        (dict_set teachers (teacher info)
           (dict_get teachers (teacher info) 0 + required_slots info),
         foldl (\<lambda>d cls. dict_set d cls (dict_get d cls 0 + required_slots info))
           classes_dict (classes info)))"

text \<open>
  \<open>sorted(items, key=lambda x: x[1], reverse=True)[:5]\<close>: a stable sort by descending
  demand, cut after five entries.
\<close>

definition top5 :: "(pystr \<times> int) list \<Rightarrow> (pystr \<times> int) list" where
  "top5 items = take 5 (sort_key (\<lambda>x. - snd x) items)"

definition gap_status_of :: "int \<Rightarrow> int \<Rightarrow> gap_status" where
  "gap_status_of slots total_available_slots =
     (let gap = slots - total_available_slots in
      if gap \<le> 0 then WithinCapacity else Shortfall gap)"


definition preprocess_data ::
  "pystr list \<Rightarrow> raw_row list \<Rightarrow> (error \<times> out_line list) + (courses \<times> out_line list)" where
  "preprocess_data real_columns sheet =
     (let missing_cols = [col \<leftarrow> core_cols. col \<notin> set real_columns] in
      if missing_cols \<noteq> [] then Inl (ValueError missing_cols, [])
      else
        let df = dropna sheet;
            ids = map course_id [0..<length df]
        in
        case read_rows ([], 0, [ValidationHeader]) (zip ids df) of
          Inl e \<Rightarrow> Inl e
        | Inr (courses, total_required_slots, notes) \<Rightarrow>
            let total_available_slots = int (length TIMES);
                (teachers, classes_dict) = foldl tally_course ([], []) courses;
                printed =
                  notes
                  @ [ResourceHeader (length TIMES), TotalDemand total_required_slots,
                     TotalGap (total_required_slots - total_available_slots)]
                  @ [TeacherHeader]
                  @ [TeacherLine t slots (gap_status_of slots total_available_slots).
                       (t, slots) \<leftarrow> top5 teachers]
                  @ [ClassHeader]
                  @ [ClassLine c slots (gap_status_of slots total_available_slots).
                       (c, slots) \<leftarrow> top5 classes_dict]
                  @ [ReadOk (length courses)]
            in Inr (courses, printed))"

section \<open>The scheduling model\<close>

text \<open>
  What the script builds with PuLP. A decision variable is addressed by its key
  \<open>(course id, slot label)\<close>; an affine expression is a list of (variable, coefficient)
  terms plus a constant; a constraint compares an expression with a number; the
  problem holds its objective and its named constraints in the order they were added.
\<close>

type_synonym var_key = "pystr \<times> pystr"

datatype lp_category = LpContinuous | LpInteger | LpBinary

record lp_variable =
  cat :: lp_category
  lowBound :: "int option"
  upBound :: "int option"

record lp_expr =
  terms :: "(var_key \<times> int) list"
  const_part :: int

datatype lp_sense = LpConstraintEQ | LpConstraintLE | LpConstraintGE

record lp_constraint =
  lhs :: lp_expr
  sense :: lp_sense
  rhs :: int


datatype lp_direction = LpMinimize | LpMaximize

record lp_problem =
  prob_name :: string
  prob_sense :: lp_direction
  objective :: lp_expr
  constraints :: "(pystr \<times> lp_constraint) list"

definition lpSum :: "var_key list \<Rightarrow> lp_expr" where
  "lpSum vs = \<lparr>terms = map (\<lambda>v. (v, 1)) vs, const_part = 0\<rparr>"

definition const_expr :: "int \<Rightarrow> lp_expr" where
  "const_expr c = \<lparr>terms = [], const_part = c\<rparr>"

text \<open>
  \<open>prob += constraint, name\<close>. PuLP stores the constraint under
  \<open>str(name).translate(trans)\<close>, where \<open>trans\<close> sends every character of a fixed set
  of illegal characters to an underscore, and raises \<open>PulpError\<close> when the problem
  already has a constraint of that name. The set is PuLP's, not the script's (PuLP
  uses \<open>"-+[] "\<close> for expressions and constraints and \<open>"-+[] ->/"\<close> for variables), so
  it is a parameter here.
\<close>

definition translate :: "pystr \<Rightarrow> pystr \<Rightarrow> pystr" where
  "translate illegal_chars s = map (\<lambda>c. if c \<in> set illegal_chars then 95 else c) s"

definition expression_illegal_chars :: pystr where
  "expression_illegal_chars = ustr ''-+[] ''"

definition element_illegal_chars :: pystr where
  "element_illegal_chars = ustr ''-+[] ->/''"

definition addConstraint ::
  "pystr \<Rightarrow> lp_problem \<Rightarrow> pystr \<times> lp_constraint \<Rightarrow> error + lp_problem" where
  "addConstraint illegal_chars prob item =
     (case item of (raw_name, constraint) \<Rightarrow>
        let cname = translate illegal_chars raw_name in
        if cname \<in> set (map fst (constraints prob)) then Inl (PulpError cname)
        else Inr (prob\<lparr>constraints := constraints prob @ [(cname, constraint)]\<rparr>))"

text \<open>A loop of \<open>prob += ...\<close> statements: the first one that raises ends it.\<close>

fun add_constraints ::
  "pystr \<Rightarrow> lp_problem \<Rightarrow> (pystr \<times> lp_constraint) list \<Rightarrow> error + lp_problem" where
  "add_constraints illegal_chars prob [] = Inr prob"
| "add_constraints illegal_chars prob (item # items) =
     (case addConstraint illegal_chars prob item of
        Inl e \<Rightarrow> Inl e
      | Inr prob' \<Rightarrow> add_constraints illegal_chars prob' items)"

text \<open>
  \<open>courses\<close> is a dictionary, so its keys are pairwise different; \<open>list(set(...))\<close>
  keeps one copy of each value, in an order Python does not fix (\<open>remdups\<close> here).
  The constraints of a block are added in the order of its loops; the line of a block
  is printed after its loops, so it is not printed when one of them raises.
\<close>

definition build_scheduling_model ::
  "pystr \<Rightarrow> toggles \<Rightarrow> courses \<Rightarrow>
   (error \<times> out_line list) + ((lp_problem \<times> (var_key \<times> lp_variable) list) \<times> out_line list)" where
  "build_scheduling_model illegal_chars tg courses =
     (let prob = \<lparr>prob_name = ''CourseScheduling'', prob_sense = LpMinimize,
                  objective = const_expr 0, constraints = []\<rparr>;
          x = [((cid, t), \<lparr>cat = LpInteger, lowBound = Some 0, upBound = Some 1\<rparr>).
                 cid \<leftarrow> map fst courses, t \<leftarrow> TIMES];
          hour_cons =
            [(ustr ''Hour_Constraint_'' @ cid,
              \<lparr>lhs = lpSum [(cid, t). t \<leftarrow> TIMES], sense = LpConstraintEQ,
               rhs = required_slots info\<rparr>).
               (cid, info) \<leftarrow> courses];
          teacher_cons =
            [(ustr ''Teacher_Conflict_'' @ tch @ ustr ''_'' @ t,
              \<lparr>lhs = lpSum [(cid, t). cid \<leftarrow> [cid. (cid, info) \<leftarrow> courses, teacher info = tch]],
               sense = LpConstraintLE, rhs = 1\<rparr>).
               tch \<leftarrow> remdups [teacher info. (cid, info) \<leftarrow> courses], t \<leftarrow> TIMES];
          class_cons =
            [(ustr ''Class_Conflict_'' @ cls @ ustr ''_'' @ t,
              \<lparr>lhs = lpSum [(cid, t). cid \<leftarrow> [cid. (cid, info) \<leftarrow> courses, cls \<in> set (classes info)]],
               sense = LpConstraintLE, rhs = 1\<rparr>).
               cls \<leftarrow> remdups [cls. (cid, info) \<leftarrow> courses, cls \<leftarrow> classes info], t \<leftarrow> TIMES];
          room_cons =
            [(ustr ''Room_Conflict_'' @ rm @ ustr ''_'' @ t,
              \<lparr>lhs = lpSum [(cid, t). cid \<leftarrow> [cid. (cid, info) \<leftarrow> courses, room info = rm]],
               sense = LpConstraintLE, rhs = 1\<rparr>).
               rm \<leftarrow> remdups [room info. (cid, info) \<leftarrow> courses], t \<leftarrow> TIMES]
      in
      case add_constraints illegal_chars prob hour_cons of
        Inl e \<Rightarrow> Inl (e, [])
      | Inr prob \<Rightarrow>
      case (if ENABLE_TEACHER_CONSTRAINT tg then add_constraints illegal_chars prob teacher_cons
            else Inr prob) of
        Inl e \<Rightarrow> Inl (e, [])
      | Inr prob \<Rightarrow>
        let printed =
              [if ENABLE_TEACHER_CONSTRAINT tg then ConstraintOn TeacherDim
               else ConstraintOff TeacherDim]
        in
      case (if ENABLE_CLASS_CONSTRAINT tg then add_constraints illegal_chars prob class_cons
            else Inr prob) of
        Inl e \<Rightarrow> Inl (e, printed)
      | Inr prob \<Rightarrow>
        let printed = printed
              @ [if ENABLE_CLASS_CONSTRAINT tg then ConstraintOn ClassDim
                 else ConstraintOff ClassDim]
        in
      case (if ENABLE_ROOM_CONSTRAINT tg then add_constraints illegal_chars prob room_cons
            else Inr prob) of
        Inl e \<Rightarrow> Inl (e, printed)
      | Inr prob \<Rightarrow>
          Inr ((prob, x),
               printed
               @ [if ENABLE_ROOM_CONSTRAINT tg then ConstraintOn RoomDim
                  else ConstraintOff RoomDim]))"

text \<open>What a value for every variable means for the model.\<close>

definition expr_value :: "(var_key \<Rightarrow> int) \<Rightarrow> lp_expr \<Rightarrow> int" where
  "expr_value val e = (\<Sum>(v, c) \<leftarrow> terms e. c * val v) + const_part e"

definition satisfies :: "(var_key \<Rightarrow> int) \<Rightarrow> lp_constraint \<Rightarrow> bool" where
  "satisfies val c =
     (case sense c of
        LpConstraintEQ \<Rightarrow> expr_value val (lhs c) = rhs c
      | LpConstraintLE \<Rightarrow> expr_value val (lhs c) \<le> rhs c
      | LpConstraintGE \<Rightarrow> expr_value val (lhs c) \<ge> rhs c)"

definition in_bounds :: "lp_variable \<Rightarrow> int \<Rightarrow> bool" where
  "in_bounds v n =
     ((case lowBound v of None \<Rightarrow> True | Some l \<Rightarrow> l \<le> n) \<and>
      (case upBound v of None \<Rightarrow> True | Some u \<Rightarrow> n \<le> u))"

definition feasible ::
  "(var_key \<Rightarrow> int) \<Rightarrow> lp_problem \<Rightarrow> (var_key \<times> lp_variable) list \<Rightarrow> bool" where
  "feasible val prob x \<longleftrightarrow>
     list_all (\<lambda>(k, v). in_bounds v (val k)) x \<and>
     list_all (\<lambda>(n, c). satisfies val c) (constraints prob)"

section \<open>Solving and exporting\<close>

text \<open>
  The solver is PuLP's; the script reads back \<open>prob.status\<close> and each variable's
  \<open>varValue\<close>. The status codes and their names are PuLP's constants
  \<open>LpStatus\<close>. A solved integer variable carries an integral value.
\<close>

datatype lp_status = LpStatusNotSolved | LpStatusOptimal | LpStatusInfeasible
  | LpStatusUnbounded | LpStatusUndefined

fun status_code :: "lp_status \<Rightarrow> int" where
  "status_code LpStatusNotSolved = 0"
| "status_code LpStatusOptimal = 1"
| "status_code LpStatusInfeasible = - 1"
| "status_code LpStatusUnbounded = - 2"
| "status_code LpStatusUndefined = - 3"

fun LpStatus :: "lp_status \<Rightarrow> string" where
  "LpStatus LpStatusNotSolved = ''Not Solved''"
| "LpStatus LpStatusOptimal = ''Optimal''"
| "LpStatus LpStatusInfeasible = ''Infeasible''"
| "LpStatus LpStatusUnbounded = ''Unbounded''"
| "LpStatus LpStatusUndefined = ''Undefined''"

record course_result =
  res_course_id :: pystr
  res_name :: pystr
  res_teacher :: pystr
  res_classes :: pystr
  res_room :: pystr
  res_total_hour :: int
  res_slot_count :: int
  res_slots :: "pystr list"

record txt_entry =
  txt_name :: pystr
  txt_teacher :: pystr
  txt_classes :: pystr
  txt_room :: pystr
  txt_total_hour :: int
  txt_slot_count :: int
  txt_slots :: pystr

text \<open>
  The effects of \<open>solve_and_export\<close>: the lines printed, the rows written to the
  spreadsheet and the entries written to the text file (\<open>None\<close>: the file is not
  written). The function itself returns nothing.
\<close>

record export =
  printed :: "out_line list"
  excel_file :: "course_result list option"
  txt_file :: "txt_entry list option"

definition solve_and_export ::
  "lp_status \<Rightarrow> (var_key \<Rightarrow> int) \<Rightarrow> courses \<Rightarrow> export" where
  "solve_and_export status varValue courses =
     (if status_code status \<noteq> 1 then
        \<lparr>printed = [SolveStatus (LpStatus status), NoFeasibleAdvice],
         excel_file = None, txt_file = None\<rparr>
      else
        let result =
              [\<lparr>res_course_id = cid, res_name = name info, res_teacher = teacher info,
                res_classes = str_join [delim_a] (classes info), res_room = room info,
                res_total_hour = total_hour info, res_slot_count = required_slots info,
                res_slots = [t \<leftarrow> TIMES. varValue (cid, t) = 1]\<rparr>.
                 (cid, info) \<leftarrow> courses];
            txt =
              [\<lparr>txt_name = res_name item, txt_teacher = res_teacher item,
                txt_classes = res_classes item, txt_room = res_room item,
                txt_total_hour = res_total_hour item, txt_slot_count = res_slot_count item,
                txt_slots = str_join (ustr '', '') (res_slots item)\<rparr>.
                 item \<leftarrow> result]
        in \<lparr>printed = [SolveStatus (LpStatus status), ExcelSaved, TxtSaved],
            excel_file = Some result, txt_file = Some txt\<rparr>)"


section \<open>Auxiliary definitions for the statements\<close>

text \<open>Reading a decimal rendering back; used to show that renderings are injective.\<close>

definition nat_of_str :: "pystr \<Rightarrow> nat" where
  "nat_of_str s = foldl (\<lambda>acc c. 10 * acc + (c - 48)) 0 s"


text \<open>A sample course used at concrete inputs.\<close>

definition demo_course :: course where
  "demo_course =
     \<lparr>name = ustr ''Algebra'', teacher = ustr ''Li'', classes = [ustr ''CS101''],
      room = ustr ''Lab'', total_hour = 2, required_slots = 1, hour_type = ustr ''theory''\<rparr>"

text \<open>
  A row the loop reads without raising: its four text cells are strings and its hours
  convert. \<open>row_course_name\<close> ... \<open>row_hour_type\<close> are the contents of such a row.
\<close>

fun is_str :: "text_cell \<Rightarrow> bool" where
  "is_str (TextStr s) = True"
| "is_str c = False"

fun converts :: "hour_cell \<Rightarrow> bool" where
  "converts (HourValue n) = True"
| "converts c = False"

definition readable :: "raw_row \<Rightarrow> bool" where
  "readable r \<longleftrightarrow>
     is_str (cell_course_name r) \<and> converts (cell_total_hour r) \<and> is_str (cell_teacher r) \<and>
     is_str (cell_room r) \<and> is_str (cell_hour_type r)"

fun text_of :: "text_cell \<Rightarrow> pystr" where
  "text_of (TextStr s) = s"
| "text_of c = []"

fun hours_of :: "hour_cell \<Rightarrow> int" where
  "hours_of (HourValue n) = n"
| "hours_of c = 0"

definition row_course_name :: "raw_row \<Rightarrow> pystr" where
  "row_course_name r = text_of (cell_course_name r)"

definition row_teacher :: "raw_row \<Rightarrow> pystr" where
  "row_teacher r = text_of (cell_teacher r)"

definition row_classes :: "raw_row \<Rightarrow> pystr" where
  "row_classes r = str_cell (cell_classes r)"

definition row_room :: "raw_row \<Rightarrow> pystr" where
  "row_room r = text_of (cell_room r)"

definition row_total_hour :: "raw_row \<Rightarrow> int" where
  "row_total_hour r = hours_of (cell_total_hour r)"

definition row_hour_type :: "raw_row \<Rightarrow> pystr" where
  "row_hour_type r = text_of (cell_hour_type r)"

text \<open>
  Names for the parts of \<open>preprocess_data\<close>: the columns it reports missing, the slot
  count and the dictionary entry the row loop derives from a readable row, the note it
  prints for the row, the courses it returns for a sheet, and the lines it prints.
  Lemma \<open>preprocess_data_ok\<close> below shows that \<open>preprocess_data\<close> computes exactly
  these when every row it keeps is readable.
\<close>

definition missing_cols :: "pystr list \<Rightarrow> pystr list" where
  "missing_cols real_columns = [col \<leftarrow> core_cols. col \<notin> set real_columns]"

definition slots_for :: "int \<Rightarrow> int" where
  "slots_for h = (if h mod HOUR_PER_SLOT \<noteq> 0 then h div HOUR_PER_SLOT + 1 else h div HOUR_PER_SLOT)"

definition row_course :: "raw_row \<Rightarrow> course" where
  "row_course row =
     \<lparr>name = str_strip (row_course_name row), teacher = str_strip (row_teacher row),
      classes = split_classes (row_classes row), room = str_strip (row_room row),
      total_hour = row_total_hour row, required_slots = slots_for (row_total_hour row),
      hour_type = str_strip (row_hour_type row)\<rparr>"

definition row_note :: "raw_row \<Rightarrow> out_line list" where
  "row_note row =
     (if row_total_hour row mod HOUR_PER_SLOT \<noteq> 0
      then [AdjustNote (str_strip (row_course_name row)) (row_total_hour row)
              (slots_for (row_total_hour row))]
      else [])"

definition loaded :: "raw_row list \<Rightarrow> courses" where
  "loaded sheet = map (\<lambda>(i, row). (course_id i, row_course row)) (zip [0..<length (dropna sheet)] (dropna sheet))"

definition report :: "raw_row list \<Rightarrow> courses \<Rightarrow> out_line list" where
  "report df cs =
     (let tally = foldl tally_course ([], []) cs;
          avail = int (length TIMES);
          tot = (\<Sum>row \<leftarrow> df. slots_for (row_total_hour row))
      in ValidationHeader # concat (map row_note df)
         @ [ResourceHeader (length TIMES), TotalDemand tot, TotalGap (tot - avail), TeacherHeader]
         @ map (\<lambda>(t, slots). TeacherLine t slots (gap_status_of slots avail)) (top5 (fst tally))
         @ [ClassHeader]
         @ map (\<lambda>(c, slots). ClassLine c slots (gap_status_of slots avail)) (top5 (snd tally))
         @ [ReadOk (length cs)])"

text \<open>Reading the printed lines back.\<close>

fun is_adjust_note :: "out_line \<Rightarrow> bool" where
  "is_adjust_note (AdjustNote n h s) = True"
| "is_adjust_note l = False"

fun teacher_line_of :: "out_line \<Rightarrow> (pystr \<times> int \<times> gap_status) option" where
  "teacher_line_of (TeacherLine t s st) = Some (t, s, st)"
| "teacher_line_of l = None"

fun class_line_of :: "out_line \<Rightarrow> (pystr \<times> int \<times> gap_status) option" where
  "class_line_of (ClassLine c s st) = Some (c, s, st)"
| "class_line_of l = None"

definition teacher_lines :: "out_line list \<Rightarrow> (pystr \<times> int \<times> gap_status) list" where
  "teacher_lines out = List.map_filter teacher_line_of out"

definition class_lines :: "out_line list \<Rightarrow> (pystr \<times> int \<times> gap_status) list" where
  "class_lines out = List.map_filter class_line_of out"

text \<open>Sample inputs: a sheet row with a given teacher cell and hours cell, and a solver
  result in which every variable is 0.\<close>

definition sample_row :: "text_cell \<Rightarrow> hour_cell \<Rightarrow> raw_row" where
  "sample_row tch h =
     \<lparr>cell_course_name = TextStr (ustr ''Algebra''), cell_teacher = tch,
      cell_classes = Some (ustr ''CS101''), cell_room = TextStr (ustr ''Lab''),
      cell_total_hour = h, cell_hour_type = TextStr (ustr ''theory'')\<rparr>"

definition all_zero :: "var_key \<Rightarrow> int" where
  "all_zero k = 0"

text \<open>
  The three conflict blocks of the builder differ only in the resource they read.
  \<open>resources\<close> gives the values a course has in a dimension, \<open>enabled\<close> the switch
  of the dimension, \<open>hour_name\<close> and \<open>conflict_name\<close> the names the f-strings of the
  builder produce, and \<open>resource_values\<close> the values that occur in the courses.
  \<open>hour_family\<close> and \<open>conflict_family\<close> are the constraints of the blocks under these
  names, \<open>active_family\<close> those of a block whose switch is read, and
  \<open>constraint_names\<close> the names under which the builder adds constraints, in its
  order. \<open>built_problem\<close>, \<open>built_variables\<close> and \<open>toggle_lines\<close> are what the builder
  returns and prints when no \<open>PulpError\<close> is raised (lemma \<open>build_ok\<close> below).
\<close>

fun family_prefix :: "dimension \<Rightarrow> pystr" where
  "family_prefix TeacherDim = ustr ''Teacher_Conflict_''"
| "family_prefix ClassDim = ustr ''Class_Conflict_''"
| "family_prefix RoomDim = ustr ''Room_Conflict_''"

definition hour_name :: "pystr \<Rightarrow> pystr" where
  "hour_name cid = ustr ''Hour_Constraint_'' @ cid"

definition conflict_name :: "dimension \<Rightarrow> pystr \<Rightarrow> pystr \<Rightarrow> pystr" where
  "conflict_name dm v t = family_prefix dm @ v @ ustr ''_'' @ t"

fun enabled :: "toggles \<Rightarrow> dimension \<Rightarrow> bool" where
  "enabled tg TeacherDim = ENABLE_TEACHER_CONSTRAINT tg"
| "enabled tg ClassDim = ENABLE_CLASS_CONSTRAINT tg"
| "enabled tg RoomDim = ENABLE_ROOM_CONSTRAINT tg"

fun resources :: "dimension \<Rightarrow> course \<Rightarrow> pystr list" where
  "resources TeacherDim info = [teacher info]"
| "resources ClassDim info = classes info"
| "resources RoomDim info = [room info]"

definition resource_values :: "dimension \<Rightarrow> courses \<Rightarrow> pystr set" where
  "resource_values dm cs = (\<Union>(cid, info) \<in> set cs. set (resources dm info))"

definition hour_family :: "courses \<Rightarrow> (pystr \<times> lp_constraint) list" where
  "hour_family cs =
     [(hour_name cid,
       \<lparr>lhs = lpSum [(cid, t). t \<leftarrow> TIMES], sense = LpConstraintEQ,
        rhs = required_slots info\<rparr>). (cid, info) \<leftarrow> cs]"

definition sharing :: "dimension \<Rightarrow> pystr \<Rightarrow> courses \<Rightarrow> pystr list" where
  "sharing dm v cs = [cid. (cid, info) \<leftarrow> cs, v \<in> set (resources dm info)]"

definition conflict_family :: "dimension \<Rightarrow> courses \<Rightarrow> (pystr \<times> lp_constraint) list" where
  "conflict_family dm cs =
     [(conflict_name dm v t,
       \<lparr>lhs = lpSum [(cid, t). cid \<leftarrow> sharing dm v cs], sense = LpConstraintLE, rhs = 1\<rparr>).
        v \<leftarrow> remdups (concat (map (\<lambda>(cid, info). resources dm info) cs)), t \<leftarrow> TIMES]"

definition active_family :: "toggles \<Rightarrow> dimension \<Rightarrow> courses \<Rightarrow> (pystr \<times> lp_constraint) list" where
  "active_family tg dm cs = (if enabled tg dm then conflict_family dm cs else [])"

definition constraint_names :: "toggles \<Rightarrow> courses \<Rightarrow> pystr list" where
  "constraint_names tg cs =
     map fst (hour_family cs @ active_family tg TeacherDim cs @ active_family tg ClassDim cs
       @ active_family tg RoomDim cs)"

definition stored :: "pystr \<Rightarrow> (pystr \<times> lp_constraint) list \<Rightarrow> (pystr \<times> lp_constraint) list" where
  "stored il cons = map (\<lambda>(n, c). (translate il n, c)) cons"

definition built_problem :: "pystr \<Rightarrow> toggles \<Rightarrow> courses \<Rightarrow> lp_problem" where
  "built_problem il tg cs =
     \<lparr>prob_name = ''CourseScheduling'', prob_sense = LpMinimize, objective = const_expr 0,
      constraints =
        stored il (hour_family cs) @ stored il (active_family tg TeacherDim cs)
        @ stored il (active_family tg ClassDim cs) @ stored il (active_family tg RoomDim cs)\<rparr>"

definition built_variables :: "courses \<Rightarrow> (var_key \<times> lp_variable) list" where
  "built_variables cs =
     [((cid, t), \<lparr>cat = LpInteger, lowBound = Some 0, upBound = Some 1\<rparr>).
        cid \<leftarrow> map fst cs, t \<leftarrow> TIMES]"

definition toggle_line :: "toggles \<Rightarrow> dimension \<Rightarrow> out_line" where
  "toggle_line tg dm = (if enabled tg dm then ConstraintOn dm else ConstraintOff dm)"

definition toggle_lines :: "toggles \<Rightarrow> out_line list" where
  "toggle_lines tg = [toggle_line tg TeacherDim, toggle_line tg ClassDim, toggle_line tg RoomDim]"

text \<open>
  Names that PuLP stores unchanged: no character of the name is illegal. A table of
  illegal characters is \<open>legal_table\<close> when it spares the characters of the fixed
  parts of the names; both tables of PuLP do.
\<close>

definition clean :: "pystr \<Rightarrow> pystr \<Rightarrow> bool" where
  "clean il s \<longleftrightarrow> list_all (\<lambda>c. c \<notin> set il) s"

definition legal_table :: "pystr \<Rightarrow> bool" where
  "legal_table il \<longleftrightarrow>
     clean il (ustr ''Hour_Constraint_Teacher_Conflict_Class_Room_Time_0123456789'')"

definition clean_courses :: "pystr \<Rightarrow> courses \<Rightarrow> bool" where
  "clean_courses il cs \<longleftrightarrow>
     list_all (\<lambda>(cid, info).
       clean il cid \<and> clean il (teacher info) \<and> list_all (clean il) (classes info)
       \<and> clean il (room info)) cs"

text \<open>
  A value for every variable: each course takes the first \<open>required_slots\<close> slots.
\<close>

definition first_slots :: "courses \<Rightarrow> var_key \<Rightarrow> int" where
  "first_slots cs k =
     (case map_of cs (fst k) of
        None \<Rightarrow> 0
      | Some info \<Rightarrow> if snd k \<in> set (take (nat (required_slots info)) TIMES) then 1 else 0)"

text \<open>More sample inputs: two courses that share a class, two courses of one teacher
  with different classes, two courses whose class names differ only in a character
  that PuLP replaces, and all switches off.\<close>

definition two_courses :: courses where
  "two_courses =
     [(ustr ''C1'', demo_course),
      (ustr ''C2'', demo_course\<lparr>name := ustr ''Logic'', classes := [ustr ''CS101'', ustr ''CS102'']\<rparr>)]"

definition same_teacher_courses :: courses where
  "same_teacher_courses =
     [(ustr ''C1'', demo_course),
      (ustr ''C2'', demo_course\<lparr>name := ustr ''Logic'', classes := [ustr ''CS102'']\<rparr>)]"

definition colliding_courses :: courses where
  "colliding_courses =
     [(ustr ''C1'', demo_course\<lparr>classes := [ustr ''CS 101'']\<rparr>),
      (ustr ''C2'', demo_course\<lparr>name := ustr ''Logic'', classes := [ustr ''CS_101'']\<rparr>)]"

definition no_toggles :: toggles where
  "no_toggles =
     \<lparr>ENABLE_TEACHER_CONSTRAINT = False, ENABLE_CLASS_CONSTRAINT = False,
      ENABLE_ROOM_CONSTRAINT = False\<rparr>"

text \<open>
  Demand as the specification words it: the sum of \<open>required_slots\<close> over every
  course that references the teacher, or that lists the class.
\<close>

definition teacher_demand :: "courses \<Rightarrow> pystr \<Rightarrow> int" where
  "teacher_demand cs t = (\<Sum>(cid, info) \<leftarrow> cs. if teacher info = t then required_slots info else 0)"

definition class_demand :: "courses \<Rightarrow> pystr \<Rightarrow> int" where
  "class_demand cs c =
     (\<Sum>(cid, info) \<leftarrow> cs. if c \<in> set (classes info) then required_slots info else 0)"

text \<open>The lines the report prints for a tally: its five largest entries, each with its
  status against the capacity.\<close>

definition gap_lines :: "int \<Rightarrow> (pystr \<times> int) list \<Rightarrow> (pystr \<times> int \<times> gap_status) list" where
  "gap_lines a d = map (\<lambda>(t, slots). (t, slots, gap_status_of slots a)) (top5 d)"

text \<open>What a call of \<open>preprocess_data\<close> printed and returned (no courses, when it
  raised).\<close>

fun printed_of :: "(error \<times> out_line list) + (courses \<times> out_line list) \<Rightarrow> out_line list" where
  "printed_of (Inl (e, out)) = out"
| "printed_of (Inr (cs, out)) = out"

fun courses_of :: "(error \<times> out_line list) + (courses \<times> out_line list) \<Rightarrow> courses" where
  "courses_of (Inl e) = []"
| "courses_of (Inr (cs, out)) = cs"

text \<open>Sample sheets: one teacher with 400, 300 and 200 hours; the same with 100 hours
  more; six teachers with 1000 hours each.\<close>

definition three_rows :: "raw_row list" where
  "three_rows =
     [sample_row (TextStr (ustr ''Li'')) (HourValue 400),
      sample_row (TextStr (ustr ''Li'')) (HourValue 300),
      sample_row (TextStr (ustr ''Li'')) (HourValue 200)]"

definition four_rows :: "raw_row list" where
  "four_rows = three_rows @ [sample_row (TextStr (ustr ''Li'')) (HourValue 100)]"

definition six_teachers :: "raw_row list" where
  "six_teachers =
     [sample_row (TextStr (ustr ''T1'')) (HourValue 1000),
      sample_row (TextStr (ustr ''T2'')) (HourValue 1000),
      sample_row (TextStr (ustr ''T3'')) (HourValue 1000),
      sample_row (TextStr (ustr ''T4'')) (HourValue 1000),
      sample_row (TextStr (ustr ''T5'')) (HourValue 1000),
      sample_row (TextStr (ustr ''T6'')) (HourValue 1000)]"


section \<open>The slot universe\<close>

text \<open>Decimal renderings consist of digits and determine the number; hence the slot
  labels are pairwise different, and there are 16 * 5 * 6 of them.\<close>


lemma str_of_nat_digits: "c \<in> set (str_of_nat n) \<Longrightarrow> 48 \<le> c \<and> c \<le> 57"
proof (induction n rule: str_of_nat.induct)
  case (1 n)
  show ?case
  proof (cases "n < 10")
    case True
    with "1.prems" show ?thesis by (simp add: str_of_nat.simps [of n])
  next
    case False
    with "1.prems" have "c \<in> set (str_of_nat (n div 10)) \<or> c = 48 + n mod 10"
      by (auto simp add: str_of_nat.simps [of n])
    then show ?thesis
    proof
      assume "c \<in> set (str_of_nat (n div 10))"
      with False "1.IH" show ?thesis by simp
    next
      assume "c = 48 + n mod 10"
      moreover have "n mod 10 < 10" by simp
      ultimately show ?thesis by linarith
    qed
  qed
qed


lemma nat_of_str_of_nat: "nat_of_str (str_of_nat n) = n"
proof (induction n rule: str_of_nat.induct)
  case (1 n)
  show ?case
  proof (cases "n < 10")
    case True
    then show ?thesis by (simp add: str_of_nat.simps [of n] nat_of_str_def)
  next
    case False
    with "1.IH" have "nat_of_str (str_of_nat (n div 10)) = n div 10" by simp
    with False show ?thesis
      by (simp add: str_of_nat.simps [of n] nat_of_str_def)
  qed
qed

lemma str_of_nat_inj: "str_of_nat m = str_of_nat n \<Longrightarrow> m = n"
  by (metis nat_of_str_of_nat)

lemma append_sep_eq:
  "x \<notin> set a \<Longrightarrow> x \<notin> set b \<Longrightarrow> a @ x # r = b @ x # r' \<Longrightarrow> a = b \<and> r = r'"
proof (induction a arbitrary: b)
  case Nil
  then show ?case by (cases b) auto
next
  case (Cons y a)
  then show ?case by (cases b) auto
qed

lemma underscore_not_digit: "95 \<notin> set (str_of_nat n)"
  using str_of_nat_digits [of 95 n] by auto

lemma time_label_inj:
  assumes "time_label w d s = time_label w' d' s'"
  shows "w = w' \<and> d = d' \<and> s = s'"
proof -
  from assms have e1: "str_of_nat w @ 95 # (str_of_nat d @ 95 # str_of_nat s)
      = str_of_nat w' @ 95 # (str_of_nat d' @ 95 # str_of_nat s')"
    by (simp add: time_label_def ustr_def)
  from append_sep_eq [OF underscore_not_digit underscore_not_digit e1]
  have w: "str_of_nat w = str_of_nat w'"
    and e2: "str_of_nat d @ 95 # str_of_nat s = str_of_nat d' @ 95 # str_of_nat s'"
    by simp_all
  from append_sep_eq [OF underscore_not_digit underscore_not_digit e2]
  have "str_of_nat d = str_of_nat d'" and "str_of_nat s = str_of_nat s'" by simp_all
  with w show ?thesis by (simp add: str_of_nat_inj)
qed

lemma TIMES_as_map:
  "TIMES = map (\<lambda>(w, d, s). time_label w d s)
     (List.product week_range (List.product day_range slot_range))"
  by (simp add: TIMES_def List.product_concat_map map_concat comp_def)

lemma TIMES_distinct: "distinct TIMES"
proof -
  have "inj_on (\<lambda>(w, d, s). time_label w d s) A" for A
    by (auto simp: inj_on_def dest: time_label_inj)
  moreover have "distinct (List.product week_range (List.product day_range slot_range))"
    by (simp add: distinct_product week_range_def day_range_def slot_range_def)
  ultimately show ?thesis
    unfolding TIMES_as_map by (simp add: distinct_map)
qed

lemma TIMES_length: "length TIMES = 480"
  unfolding TIMES_as_map by (simp add: week_range_def day_range_def slot_range_def)

section \<open>Result reconstruction\<close>

lemma solve_optimal_rows:
  "excel_file (solve_and_export LpStatusOptimal val cs) =
     Some (map (\<lambda>(cid, info).
       \<lparr>res_course_id = cid, res_name = name info, res_teacher = teacher info,
        res_classes = str_join [delim_a] (classes info), res_room = room info,
        res_total_hour = total_hour info, res_slot_count = required_slots info,
        res_slots = [t \<leftarrow> TIMES. val (cid, t) = 1]\<rparr>) cs)"
  by (simp add: solve_and_export_def Let_def)

text \<open>
  C5, as the code has it. On status Optimal the spreadsheet rows are written, one per
  course and in course order. The row of a course lists exactly the slots whose
  variable has value 1, each once and in slot order. Its slot count is the course's
  \<open>required_slots\<close>, copied: the number of collected slots is not compared with it and
  no error is raised (the result type has none).
\<close>

theorem reconstruct_collects_without_recheck:
  assumes "i < length cs"
  shows "\<exists>rows. excel_file (solve_and_export LpStatusOptimal val cs) = Some rows
     \<and> length rows = length cs
     \<and> res_course_id (rows ! i) = fst (cs ! i)
     \<and> set (res_slots (rows ! i)) = {t \<in> set TIMES. val (fst (cs ! i), t) = 1}
     \<and> distinct (res_slots (rows ! i))
     \<and> res_slots (rows ! i) = [t \<leftarrow> TIMES. val (fst (cs ! i), t) = 1]
     \<and> res_slot_count (rows ! i) = required_slots (snd (cs ! i))"
  using assms
  by (simp add: solve_optimal_rows TIMES_distinct case_prod_beta)

theorem reconstruct_collects_witness:
  "\<exists>rows. excel_file (solve_and_export LpStatusOptimal all_zero [(ustr ''C1'', demo_course)]) = Some rows
     \<and> length rows = 1
     \<and> res_course_id (rows ! 0) = ustr ''C1''
     \<and> set (res_slots (rows ! 0)) = {}
     \<and> res_slot_count (rows ! 0) = 1"
  using reconstruct_collects_without_recheck [of 0 "[(ustr ''C1'', demo_course)]" all_zero]
  by (auto simp add: demo_course_def all_zero_def)

text \<open>
  C5 as stated fails: a course that requires one slot while every variable has value 0
  is exported with slot count 1 and an empty slot list; nothing is re-verified.
\<close>

theorem reconstruct_no_consistency_error:
  "excel_file (solve_and_export LpStatusOptimal all_zero [(ustr ''C1'', demo_course)]) =
     Some [\<lparr>res_course_id = ustr ''C1'', res_name = ustr ''Algebra'', res_teacher = ustr ''Li'',
            res_classes = ustr ''CS101'', res_room = ustr ''Lab'', res_total_hour = 2,
            res_slot_count = 1, res_slots = []\<rparr>]"
  by (simp add: solve_optimal_rows demo_course_def all_zero_def)

text \<open>
  C6, as the code has it. Every status other than Optimal takes the one branch
  \<open>prob.status != 1\<close>: the status name is printed, then the same "still no feasible
  solution" advice, and no file is written. PuLP reports an exhausted time budget as
  Not Solved.
\<close>

theorem non_optimal_outcomes_collapse:
  assumes "status \<noteq> LpStatusOptimal"
  shows "solve_and_export status val cs =
     \<lparr>printed = [SolveStatus (LpStatus status), NoFeasibleAdvice],
      excel_file = None, txt_file = None\<rparr>"
  using assms by (cases status) (simp_all add: solve_and_export_def)

theorem non_optimal_outcomes_collapse_witness:
  "LpStatusNotSolved \<noteq> LpStatusOptimal \<and>
   solve_and_export LpStatusNotSolved all_zero [] =
     \<lparr>printed = [SolveStatus ''Not Solved'', NoFeasibleAdvice],
      excel_file = None, txt_file = None\<rparr>"
  using non_optimal_outcomes_collapse [of LpStatusNotSolved all_zero "[]"] by simp

text \<open>
  C6 as stated fails: for Not Solved the "no feasible solution" advice is printed, and
  apart from the status name the outcome is the one of Infeasible.
\<close>

theorem timeout_presented_as_infeasible:
  "solve_and_export LpStatusNotSolved all_zero [(ustr ''C1'', demo_course)] =
     \<lparr>printed = [SolveStatus ''Not Solved'', NoFeasibleAdvice],
      excel_file = None, txt_file = None\<rparr>
   \<and> solve_and_export LpStatusInfeasible all_zero [(ustr ''C1'', demo_course)] =
     \<lparr>printed = [SolveStatus ''Infeasible'', NoFeasibleAdvice],
      excel_file = None, txt_file = None\<rparr>"
  by (simp add: solve_and_export_def)

section \<open>Splitting and stripping strings\<close>


lemma str_split_nonempty: "str_split sep s \<noteq> []"
  by (induction s) (auto split: list.splits)





lemma str_join_split: "str_join [sep] (str_split sep s) = s"
proof (induction s)
  case Nil
  then show ?case by simp
next
  case (Cons c cs)
  obtain q qs where q: "str_split sep cs = q # qs"
    using str_split_nonempty [of sep cs] by (cases "str_split sep cs") auto
  show ?case
  proof (cases "c = sep")
    case True
    with Cons q show ?thesis by simp
  next
    case False
    with Cons q show ?thesis by (cases qs) auto
  qed
qed










section \<open>The class field\<close>



















section \<open>Reading the sheet\<close>

lemma strip_cell_str: "is_str c \<Longrightarrow> strip_cell c = Inr (str_strip (text_of c))"
  by (cases c) auto

lemma strip_cell_fails: "\<not> is_str c \<Longrightarrow> strip_cell c = Inl AttributeError"
  by (cases c) auto

lemma int_cell_value: "converts c \<Longrightarrow> int_cell c = Inr (hours_of c)"
  by (cases c) auto

lemma int_cell_fails: "\<not> converts c \<Longrightarrow> int_cell c = Inl IntConversionError"
  by (cases c) auto

lemmas row_fields =
  row_course_name_def row_teacher_def row_classes_def row_room_def row_total_hour_def
  row_hour_type_def

lemma read_row_eq:
  assumes "readable row"
  shows "read_row (cs, tot, pr) (cid, row) =
     Inr (dict_set cs cid (row_course row), tot + slots_for (row_total_hour row),
          pr @ row_note row)"
  using assms
  by (simp add: read_row_def readable_def strip_cell_str int_cell_value row_course_def
      row_note_def slots_for_def Let_def row_fields)

lemma read_row_fails:
  assumes "\<not> readable row"
  shows "\<exists>e out. read_row (cs, tot, pr) (cid, row) = Inl (e, out)
     \<and> (e = AttributeError \<or> e = IntConversionError)"
proof (cases "is_str (cell_course_name row)")
  case False
  then show ?thesis by (simp add: read_row_def strip_cell_fails)
next
  case n: True
  show ?thesis
  proof (cases "converts (cell_total_hour row)")
    case False
    with n show ?thesis by (simp add: read_row_def strip_cell_str int_cell_fails)
  next
    case h: True
    show ?thesis
    proof (cases "is_str (cell_teacher row)")
      case False
      with n h show ?thesis
        by (simp add: read_row_def strip_cell_str int_cell_value strip_cell_fails Let_def)
    next
      case t: True
      show ?thesis
      proof (cases "is_str (cell_room row)")
        case False
        with n h t show ?thesis
          by (simp add: read_row_def strip_cell_str int_cell_value strip_cell_fails Let_def)
      next
        case r: True
        with assms n h t have "\<not> is_str (cell_hour_type row)" by (simp add: readable_def)
        with n h t r show ?thesis
          by (simp add: read_row_def strip_cell_str int_cell_value strip_cell_fails Let_def)
      qed
    qed
  qed
qed

lemma dict_set_fresh: "k \<notin> fst ` set d \<Longrightarrow> dict_set d k v = d @ [(k, v)]"
  by (induction d) auto

lemma read_rows_eq:
  assumes "distinct (map fst items)" and "fst ` set items \<inter> fst ` set cs = {}"
    and "list_all readable (map snd items)"
  shows "read_rows (cs, tot, pr) items =
     Inr (cs @ map (\<lambda>(cid, row). (cid, row_course row)) items,
          tot + (\<Sum>(cid, row) \<leftarrow> items. slots_for (row_total_hour row)),
          pr @ concat (map (\<lambda>(cid, row). row_note row) items))"
  using assms
proof (induction items arbitrary: cs tot pr)
  case Nil
  then show ?case by simp
next
  case (Cons it items)
  obtain cid row where it: "it = (cid, row)" by (cases it)
  from Cons.prems it have fresh: "cid \<notin> fst ` set cs" by auto
  from Cons.prems it have rd: "readable row" by simp
  have d: "distinct (map fst items)" using Cons.prems by simp
  have a: "list_all readable (map snd items)" using Cons.prems by simp
  have "fst ` set items \<inter> fst ` set (cs @ [(cid, row_course row)]) = {}"
    using Cons.prems it by auto
  from Cons.IH [OF d this a] fresh it show ?case
    by (simp add: read_row_eq [OF rd] dict_set_fresh)
qed

lemma read_rows_fails:
  assumes "\<not> list_all readable (map snd items)"
  shows "\<exists>e out. read_rows st items = Inl (e, out)
     \<and> (e = AttributeError \<or> e = IntConversionError)"
  using assms
proof (induction items arbitrary: st)
  case Nil
  then show ?case by simp
next
  case (Cons it items)
  obtain cid row where it: "it = (cid, row)" by (cases it)
  obtain cs tot pr where st: "st = (cs, tot, pr)" by (cases st)
  show ?case
  proof (cases "readable row")
    case True
    with Cons.prems it have "\<not> list_all readable (map snd items)" by simp
    from Cons.IH [OF this] show ?thesis
      by (simp add: it st read_row_eq [OF True])
  next
    case False
    from read_row_fails [OF this, of cs tot pr cid]
    show ?thesis by (auto simp: it st)
  qed
qed

lemma course_id_inj: "course_id i = course_id j \<Longrightarrow> i = j"
  by (auto simp: course_id_def dest: str_of_nat_inj)

lemma course_ids_distinct: "distinct (map course_id [0..<n])"
  by (auto simp: distinct_map inj_on_def dest: course_id_inj)

lemma map_snd_case: "map (\<lambda>(a, b). f b) xs = map f (map snd xs)"
  by (induction xs) auto


lemma read_sheet:
  assumes "list_all readable df"
  shows "read_rows ([], 0, [ValidationHeader]) (zip (map course_id [0..<length df]) df) =
     Inr (map (\<lambda>(i, row). (course_id i, row_course row)) (zip [0..<length df] df),
          (\<Sum>row \<leftarrow> df. slots_for (row_total_hour row)),
          ValidationHeader # concat (map row_note df))"
proof -
  let ?items = "zip (map course_id [0..<length df]) df"
  have f: "map fst ?items = map course_id [0..<length df]" by simp
  have s: "map snd ?items = df" by simp
  have d: "distinct (map fst ?items)" unfolding f by (rule course_ids_distinct)
  have a: "list_all readable (map snd ?items)" unfolding s by (rule assms)
  have "read_rows ([], 0, [ValidationHeader]) ?items =
     Inr ([] @ map (\<lambda>(cid, row). (cid, row_course row)) ?items,
          0 + (\<Sum>(cid, row) \<leftarrow> ?items. slots_for (row_total_hour row)),
          [ValidationHeader] @ concat (map (\<lambda>(cid, row). row_note row) ?items))"
    using d _ a by (rule read_rows_eq) simp
  moreover have "map (\<lambda>(cid, row). (cid, row_course row)) ?items
      = map (\<lambda>(i, row). (course_id i, row_course row)) (zip [0..<length df] df)"
    by (simp add: zip_map1 case_prod_beta)
  moreover have "map (\<lambda>(cid, row). slots_for (row_total_hour row)) ?items
      = map (\<lambda>row. slots_for (row_total_hour row)) (map snd ?items)"
    by (rule map_snd_case)
  moreover have "map (\<lambda>(cid, row). row_note row) ?items = map row_note (map snd ?items)"
    by (rule map_snd_case)
  ultimately show ?thesis by (simp only: s) simp
qed

lemma preprocess_data_missing:
  "missing_cols real_columns \<noteq> [] \<Longrightarrow>
     preprocess_data real_columns sheet = Inl (ValueError (missing_cols real_columns), [])"
  by (simp add: preprocess_data_def missing_cols_def Let_def)

lemma concat_map_single: "concat (map (\<lambda>x. [f x]) xs) = map f xs"
  by (induction xs) auto

lemma preprocess_data_ok:
  assumes "missing_cols real_columns = []" and "list_all readable (dropna sheet)"
  shows "preprocess_data real_columns sheet
     = Inr (loaded sheet, report (dropna sheet) (loaded sheet))"
proof -
  have c: "concat (map (\<lambda>p. [f p]) xs) = map f xs" for f :: "pystr \<times> int \<Rightarrow> out_line" and xs
    by (rule concat_map_single)
  show ?thesis
    using assms(1)
    by (simp add: preprocess_data_def missing_cols_def [symmetric] Let_def
        read_sheet [OF assms(2)] loaded_def report_def case_prod_beta c)
qed

lemma preprocess_data_fails:
  assumes "missing_cols real_columns = []" and "\<not> list_all readable (dropna sheet)"
  shows "\<exists>e out. preprocess_data real_columns sheet = Inl (e, out)
     \<and> (e = AttributeError \<or> e = IntConversionError)"
proof -
  let ?items = "zip (map course_id [0..<length (dropna sheet)]) (dropna sheet)"
  have "map snd ?items = dropna sheet" by simp
  with assms(2) have "\<not> list_all readable (map snd ?items)" by simp
  from read_rows_fails [OF this, of "([], 0, [ValidationHeader])"]
  obtain e out where "read_rows ([], 0, [ValidationHeader]) ?items = Inl (e, out)"
    and "e = AttributeError \<or> e = IntConversionError" by blast
  then show ?thesis
    using assms(1)
    by (simp add: preprocess_data_def missing_cols_def [symmetric] Let_def)
qed

lemma dropna_idem: "dropna (filter complete_row sheet) = dropna sheet"
  by (simp add: dropna_def)

lemma preprocess_data_dropna:
  "preprocess_data real_columns sheet = preprocess_data real_columns (filter complete_row sheet)"
  unfolding preprocess_data_def dropna_idem ..

lemma report_notes: "filter is_adjust_note (report df cs) = concat (map row_note df)"
proof -
  have "filter is_adjust_note (concat (map row_note df)) = concat (map row_note df)"
    by (induction df) (auto simp: row_note_def)
  then show ?thesis by (simp add: report_def Let_def case_prod_beta comp_def)
qed

lemma map_filter_append: "List.map_filter f (xs @ ys) = List.map_filter f xs @ List.map_filter f ys"
  by (simp add: List.map_filter_def)

lemma report_teacher_lines:
  "teacher_lines (report df cs)
     = map (\<lambda>(t, slots). (t, slots, gap_status_of slots (int (length TIMES))))
         (top5 (fst (foldl tally_course ([], []) cs)))"
proof -
  have 1: "List.map_filter teacher_line_of (concat (map row_note df)) = []"
    by (induction df) (auto simp: row_note_def List.map_filter_def)
  have 2: "List.map_filter teacher_line_of
      (map (\<lambda>(c, slots). ClassLine c slots (g slots)) xs) = []" for g xs
    by (induction xs) (auto simp: List.map_filter_def)
  have 3: "List.map_filter teacher_line_of
      (map (\<lambda>(c, slots). TeacherLine c slots (g slots)) xs) = map (\<lambda>(t, slots). (t, slots, g slots)) xs" for g xs
    by (induction xs) (auto simp: List.map_filter_def)
  show ?thesis
    by (simp add: teacher_lines_def report_def Let_def map_filter_append 1 2 3
        List.map_filter_simps)
qed

lemma report_class_lines:
  "class_lines (report df cs)
     = map (\<lambda>(t, slots). (t, slots, gap_status_of slots (int (length TIMES))))
         (top5 (snd (foldl tally_course ([], []) cs)))"
proof -
  have 1: "List.map_filter class_line_of (concat (map row_note df)) = []"
    by (induction df) (auto simp: row_note_def List.map_filter_def)
  have 2: "List.map_filter class_line_of
      (map (\<lambda>(c, slots). TeacherLine c slots (g slots)) xs) = []" for g xs
    by (induction xs) (auto simp: List.map_filter_def)
  have 3: "List.map_filter class_line_of
      (map (\<lambda>(c, slots). ClassLine c slots (g slots)) xs) = map (\<lambda>(t, slots). (t, slots, g slots)) xs" for g xs
    by (induction xs) (auto simp: List.map_filter_def)
  show ?thesis
    by (simp add: class_lines_def report_def Let_def map_filter_append 1 2 3
        List.map_filter_simps)
qed

lemma missing_cols_core: "missing_cols core_cols = []"
  by (simp add: missing_cols_def)

lemma slots_for_ceiling: "slots_for h = \<lceil>real_of_int h / real_of_int HOUR_PER_SLOT\<rceil>"
proof -
  have "\<lceil>real_of_int h / real_of_int 2\<rceil> = - (- h div 2)"
    by (rule ceiling_divide_eq_div)
  moreover have "- (- h div 2) = (if h mod 2 \<noteq> 0 then h div 2 + 1 else h div 2)"
    by presburger
  ultimately show ?thesis by (simp add: slots_for_def HOUR_PER_SLOT_def)
qed

lemma slots_for_positive: "0 < h \<Longrightarrow> 1 \<le> slots_for h"
  unfolding slots_for_def HOUR_PER_SLOT_def by presburger

lemma course_id_1: "course_id 0 = ustr ''C1''"
  by (simp add: course_id_def str_of_nat.simps ustr_def)

lemma strip_samples:
  "str_strip (ustr ''Algebra'') = ustr ''Algebra''"
  "str_strip (ustr ''Li'') = ustr ''Li''"
  "str_strip (ustr ''Lab'') = ustr ''Lab''"
  "str_strip (ustr ''theory'') = ustr ''theory''"
  "split_classes (ustr ''CS101'') = [ustr ''CS101'']"
  by (simp_all add: split_classes_def Let_def str_strip_def isspace_def ustr_def
      delim_a_def delim_b_def)

lemma sample_row_readable: "readable (sample_row (TextStr t) (HourValue h))"
  by (simp add: readable_def sample_row_def)

lemma sample_row_complete: "complete_row (sample_row (TextStr t) (HourValue h))"
  by (simp add: complete_row_def sample_row_def)

lemma example_17:
  "preprocess_data core_cols [sample_row (TextStr (ustr ''Li'')) (HourValue 17)] =
     Inr ([(ustr ''C1'',
            \<lparr>name = ustr ''Algebra'', teacher = ustr ''Li'', classes = [ustr ''CS101''],
             room = ustr ''Lab'', total_hour = 17, required_slots = 9,
             hour_type = ustr ''theory''\<rparr>)],
          [ValidationHeader, AdjustNote (ustr ''Algebra'') 17 9, ResourceHeader 480,
           TotalDemand 9, TotalGap (- 471), TeacherHeader,
           TeacherLine (ustr ''Li'') 9 WithinCapacity, ClassHeader,
           ClassLine (ustr ''CS101'') 9 WithinCapacity, ReadOk 1])"
proof -
  have d: "dropna [sample_row (TextStr (ustr ''Li'')) (HourValue 17)]
      = [sample_row (TextStr (ustr ''Li'')) (HourValue 17)]"
    by (simp add: dropna_def sample_row_complete)
  have r: "list_all readable (dropna [sample_row (TextStr (ustr ''Li'')) (HourValue 17)])"
    unfolding d by (simp add: sample_row_readable)
  show ?thesis
    unfolding preprocess_data_ok [OF missing_cols_core r] loaded_def d
    by (simp add: row_fields sample_row_def course_id_1 row_course_def
        strip_samples slots_for_def HOUR_PER_SLOT_def report_def Let_def row_note_def
        TIMES_length tally_course_def dict_get_def top5_def gap_status_of_def)
qed

lemma loaded_length: "length (loaded sheet) = length (dropna sheet)"
  by (simp add: loaded_def)

lemma loaded_nth:
  "i < length (dropna sheet) \<Longrightarrow>
     loaded sheet ! i = (course_id i, row_course (dropna sheet ! i))"
  by (simp add: loaded_def)

lemma loaded_fst: "map fst (loaded sheet) = map course_id [0..<length (dropna sheet)]"
  by (rule nth_equalityI) (simp_all add: loaded_def)

lemma loaded_snd: "map snd (loaded sheet) = map row_course (dropna sheet)"
  by (rule nth_equalityI) (simp_all add: loaded_def)

lemma complete_row_sample: "complete_row (sample_row t h) \<longleftrightarrow> t \<noteq> TextNaN \<and> h \<noteq> HourNaN"
  by (simp add: complete_row_def sample_row_def)

lemma readable_sample: "readable (sample_row t h) \<longleftrightarrow> is_str t \<and> converts h"
  by (auto simp: readable_def sample_row_def)

text \<open>
  C4, as the code has it. Rows are not rejected. A row in which any of the six cells is
  missing is dropped before the row loop, and it leaves no trace: the call returns,
  prints and raises exactly what it does on the sheet without such rows. When required
  columns are absent from the sheet, a \<open>ValueError\<close> that lists all of them, in the
  order of \<open>core_cols\<close>, is raised before any row is read. Otherwise, when every kept
  row is readable, the call returns: the courses are built, in order and numbered from
  1, from exactly the kept rows, and the printed lines are computed from the kept rows
  and these courses alone. The only other errors come from a kept row with a filled
  cell of the wrong kind: \<open>.strip()\<close> or \<open>int()\<close> raises in the row loop.
\<close>

theorem incomplete_rows_dropped_silently:
  "preprocess_data real_columns sheet
     = preprocess_data real_columns [r \<leftarrow> sheet. complete_row r]
   \<and> dropna sheet = [r \<leftarrow> sheet. complete_row r]
   \<and> (complete_row r \<longleftrightarrow>
        cell_course_name r \<noteq> TextNaN \<and> cell_teacher r \<noteq> TextNaN \<and> cell_classes r \<noteq> None \<and>
        cell_room r \<noteq> TextNaN \<and> cell_total_hour r \<noteq> HourNaN \<and> cell_hour_type r \<noteq> TextNaN)
   \<and> (missing_cols real_columns \<noteq> [] \<longrightarrow>
        preprocess_data real_columns sheet = Inl (ValueError (missing_cols real_columns), []))
   \<and> (missing_cols real_columns = [] \<and> list_all readable (dropna sheet) \<longrightarrow>
        (\<exists>cs out. preprocess_data real_columns sheet = Inr (cs, out)
           \<and> map fst cs = map course_id [0..<length (dropna sheet)]
           \<and> map snd cs = map row_course (dropna sheet)
           \<and> out = report (dropna sheet) cs))
   \<and> (missing_cols real_columns = [] \<and> \<not> list_all readable (dropna sheet) \<longrightarrow>
        (\<exists>e out. preprocess_data real_columns sheet = Inl (e, out)
           \<and> (e = AttributeError \<or> e = IntConversionError)))"
proof -
  have 1: "preprocess_data real_columns sheet
     = preprocess_data real_columns [r \<leftarrow> sheet. complete_row r]"
    by (rule preprocess_data_dropna)
  have 2: "dropna sheet = [r \<leftarrow> sheet. complete_row r]"
    by (rule dropna_def)
  have 3: "complete_row r \<longleftrightarrow>
        cell_course_name r \<noteq> TextNaN \<and> cell_teacher r \<noteq> TextNaN \<and> cell_classes r \<noteq> None \<and>
        cell_room r \<noteq> TextNaN \<and> cell_total_hour r \<noteq> HourNaN \<and> cell_hour_type r \<noteq> TextNaN"
    by (rule complete_row_def)
  have 4: "missing_cols real_columns \<noteq> [] \<longrightarrow>
        preprocess_data real_columns sheet = Inl (ValueError (missing_cols real_columns), [])"
    by (intro impI preprocess_data_missing)
  have 5: "missing_cols real_columns = [] \<and> list_all readable (dropna sheet) \<longrightarrow>
        (\<exists>cs out. preprocess_data real_columns sheet = Inr (cs, out)
           \<and> map fst cs = map course_id [0..<length (dropna sheet)]
           \<and> map snd cs = map row_course (dropna sheet)
           \<and> out = report (dropna sheet) cs)"
  proof (intro impI, elim conjE)
    assume m: "missing_cols real_columns = []" and a: "list_all readable (dropna sheet)"
    have "preprocess_data real_columns sheet
        = Inr (loaded sheet, report (dropna sheet) (loaded sheet))
      \<and> map fst (loaded sheet) = map course_id [0..<length (dropna sheet)]
      \<and> map snd (loaded sheet) = map row_course (dropna sheet)
      \<and> report (dropna sheet) (loaded sheet) = report (dropna sheet) (loaded sheet)"
      by (intro conjI refl preprocess_data_ok [OF m a] loaded_fst loaded_snd)
    then show "\<exists>cs out. preprocess_data real_columns sheet = Inr (cs, out)
           \<and> map fst cs = map course_id [0..<length (dropna sheet)]
           \<and> map snd cs = map row_course (dropna sheet)
           \<and> out = report (dropna sheet) cs"
      by (intro exI)
  qed
  have 6: "missing_cols real_columns = [] \<and> \<not> list_all readable (dropna sheet) \<longrightarrow>
        (\<exists>e out. preprocess_data real_columns sheet = Inl (e, out)
           \<and> (e = AttributeError \<or> e = IntConversionError))"
  proof (intro impI, elim conjE)
    assume "missing_cols real_columns = []" and "\<not> list_all readable (dropna sheet)"
    then show "\<exists>e out. preprocess_data real_columns sheet = Inl (e, out)
           \<and> (e = AttributeError \<or> e = IntConversionError)"
      by (rule preprocess_data_fails)
  qed
  show ?thesis by (intro conjI) (rule 1 2 3 4 5 6)+
qed

theorem incomplete_rows_dropped_witness:
  "missing_cols [col_course_name] =
     [col_teacher, col_classes, col_room, col_total_hour, col_hour_type]
   \<and> preprocess_data [col_course_name] [sample_row TextNaN (HourValue 17)] =
       Inl (ValueError [col_teacher, col_classes, col_room, col_total_hour, col_hour_type], [])
   \<and> missing_cols core_cols = []
   \<and> preprocess_data core_cols
       [sample_row TextNaN (HourValue 17), sample_row (TextStr (ustr ''Li'')) (HourValue 17)]
     = preprocess_data core_cols [sample_row (TextStr (ustr ''Li'')) (HourValue 17)]
   \<and> list_all readable (dropna
       [sample_row TextNaN (HourValue 17), sample_row (TextStr (ustr ''Li'')) (HourValue 17)])
   \<and> map fst (courses_of (preprocess_data core_cols
       [sample_row TextNaN (HourValue 17), sample_row (TextStr (ustr ''Li'')) (HourValue 17)]))
     = [ustr ''C1'']
   \<and> \<not> list_all readable (dropna [sample_row TextOther (HourValue 17)])
   \<and> (\<exists>e out. preprocess_data core_cols [sample_row TextOther (HourValue 17)] = Inl (e, out)
         \<and> (e = AttributeError \<or> e = IntConversionError))"
proof -
  let ?gap = "sample_row TextNaN (HourValue 17)"
  let ?ok = "sample_row (TextStr (ustr ''Li'')) (HourValue 17)"
  let ?bad = "sample_row TextOther (HourValue 17)"
  have m: "missing_cols [col_course_name] =
     [col_teacher, col_classes, col_room, col_total_hour, col_hour_type]"
    by (simp add: missing_cols_def core_cols_def col_course_name_def col_teacher_def
        col_classes_def col_room_def col_total_hour_def col_hour_type_def)
  then have ne: "missing_cols [col_course_name] \<noteq> []" by simp
  note t1 = incomplete_rows_dropped_silently [of "[col_course_name]" "[?gap]" ?gap]
  from t1 have "missing_cols [col_course_name] \<noteq> [] \<longrightarrow>
      preprocess_data [col_course_name] [?gap]
        = Inl (ValueError (missing_cols [col_course_name]), [])"
    by (rule conjunct2 [THEN conjunct2, THEN conjunct2, THEN conjunct1])
  from this ne have "preprocess_data [col_course_name] [?gap]
        = Inl (ValueError (missing_cols [col_course_name]), [])" by (rule mp)
  then have e: "preprocess_data [col_course_name] [?gap] =
       Inl (ValueError [col_teacher, col_classes, col_room, col_total_hour, col_hour_type], [])"
    by (simp only: m)
  note t2 = incomplete_rows_dropped_silently [of core_cols "[?gap, ?ok]" ?gap]
  from t2 have "preprocess_data core_cols [?gap, ?ok]
      = preprocess_data core_cols [r \<leftarrow> [?gap, ?ok]. complete_row r]"
    by (rule conjunct1)
  then have s: "preprocess_data core_cols [?gap, ?ok] = preprocess_data core_cols [?ok]"
    by (simp add: complete_row_sample)
  have d: "dropna [?gap, ?ok] = [?ok]" by (simp add: dropna_def complete_row_sample)
  have r: "list_all readable (dropna [?gap, ?ok])"
    unfolding d by (simp add: readable_sample)
  from t2 have "missing_cols core_cols = [] \<and> list_all readable (dropna [?gap, ?ok]) \<longrightarrow>
        (\<exists>cs out. preprocess_data core_cols [?gap, ?ok] = Inr (cs, out)
           \<and> map fst cs = map course_id [0..<length (dropna [?gap, ?ok])]
           \<and> map snd cs = map row_course (dropna [?gap, ?ok])
           \<and> out = report (dropna [?gap, ?ok]) cs)"
    by (rule conjunct2 [THEN conjunct2, THEN conjunct2, THEN conjunct2, THEN conjunct1])
  moreover have "missing_cols core_cols = [] \<and> list_all readable (dropna [?gap, ?ok])"
    using missing_cols_core r by (rule conjI)
  ultimately have "\<exists>cs out. preprocess_data core_cols [?gap, ?ok] = Inr (cs, out)
           \<and> map fst cs = map course_id [0..<length (dropna [?gap, ?ok])]
           \<and> map snd cs = map row_course (dropna [?gap, ?ok])
           \<and> out = report (dropna [?gap, ?ok]) cs"
    by (rule mp)
  then obtain cs out where p: "preprocess_data core_cols [?gap, ?ok] = Inr (cs, out)"
    and f: "map fst cs = map course_id [0..<length (dropna [?gap, ?ok])]"
    by blast
  from f have "map fst cs = [ustr ''C1'']" unfolding d by (simp add: course_id_1)
  then have c: "map fst (courses_of (preprocess_data core_cols [?gap, ?ok])) = [ustr ''C1'']"
    unfolding p by simp
  have db: "dropna [?bad] = [?bad]" by (simp add: dropna_def complete_row_sample)
  have nr: "\<not> list_all readable (dropna [?bad])"
    unfolding db by (simp add: readable_sample)
  note t3 = incomplete_rows_dropped_silently [of core_cols "[?bad]" ?bad]
  from t3 have "missing_cols core_cols = [] \<and> \<not> list_all readable (dropna [?bad]) \<longrightarrow>
        (\<exists>e out. preprocess_data core_cols [?bad] = Inl (e, out)
           \<and> (e = AttributeError \<or> e = IntConversionError))"
    by (rule conjunct2 [THEN conjunct2, THEN conjunct2, THEN conjunct2, THEN conjunct2])
  moreover have "missing_cols core_cols = [] \<and> \<not> list_all readable (dropna [?bad])"
    using missing_cols_core nr by (rule conjI)
  ultimately have b: "\<exists>e out. preprocess_data core_cols [?bad] = Inl (e, out)
           \<and> (e = AttributeError \<or> e = IntConversionError)"
    by (rule mp)
  show ?thesis
    by (intro conjI) (rule m e missing_cols_core s r c nr b)+
qed

text \<open>
  C4 as stated fails: a sheet whose single row has no teacher is read without any
  error; the row is dropped and no course results.
\<close>

theorem missing_field_raises_nothing:
  "preprocess_data core_cols [sample_row TextNaN (HourValue 17)] =
     Inr ([], [ValidationHeader, ResourceHeader 480, TotalDemand 0, TotalGap (- 480),
               TeacherHeader, ClassHeader, ReadOk 0])"
proof -
  have d: "dropna [sample_row TextNaN (HourValue 17)] = []"
    by (simp add: dropna_def complete_row_sample)
  have r: "list_all readable (dropna [sample_row TextNaN (HourValue 17)])"
    unfolding d by simp
  show ?thesis
    unfolding preprocess_data_ok [OF missing_cols_core r] loaded_def d
    by (simp add: report_def Let_def TIMES_length top5_def)
qed

text \<open>
  A filled cell of the wrong kind is not dropped: a teacher cell holding a number makes
  the row loop raise, after the header line has been printed.
\<close>

lemma malformed_cell_raises:
  "preprocess_data core_cols [sample_row TextOther (HourValue 17)]
     = Inl (AttributeError, [ValidationHeader, AdjustNote (ustr ''Algebra'') 17 9])"
proof -
  have d: "dropna [sample_row TextOther (HourValue 17)] = [sample_row TextOther (HourValue 17)]"
    by (simp add: dropna_def complete_row_sample)
  have m: "[col \<leftarrow> core_cols. col \<notin> set core_cols] = []" by simp
  show ?thesis
    unfolding preprocess_data_def m Let_def d
    by (simp add: read_row_def sample_row_def strip_samples HOUR_PER_SLOT_def Let_def)
qed

lemma notes_of_loaded:
  "concat (map row_note (dropna sheet))
     = [AdjustNote (name c) (total_hour c) (required_slots c).
          (cid, c) \<leftarrow> loaded sheet, total_hour c mod HOUR_PER_SLOT \<noteq> 0]"
proof -
  have "[AdjustNote (name c) (total_hour c) (required_slots c).
          (cid, c) \<leftarrow> loaded sheet, total_hour c mod HOUR_PER_SLOT \<noteq> 0]
      = concat (map (\<lambda>c. if total_hour c mod HOUR_PER_SLOT \<noteq> 0
           then [AdjustNote (name c) (total_hour c) (required_slots c)] else [])
          (map snd (loaded sheet)))"
    by (simp only: map_snd_case)
  also have "\<dots> = concat (map row_note (dropna sheet))"
    unfolding loaded_snd map_map
    by (intro arg_cong [where f = concat] map_cong refl) (simp add: row_note_def row_course_def)
  finally show ?thesis by simp
qed

lemma in_notes:
  "AdjustNote n h s \<in> set [AdjustNote (name c) (total_hour c) (required_slots c).
       (cid, c) \<leftarrow> cs, total_hour c mod HOUR_PER_SLOT \<noteq> 0]
   \<longleftrightarrow> (\<exists>(cid, c) \<in> set cs. total_hour c mod HOUR_PER_SLOT \<noteq> 0
         \<and> n = name c \<and> h = total_hour c \<and> s = required_slots c)"
  by (induction cs) auto


text \<open>
  C3. With all required columns present and every kept row readable,
  \<open>preprocess_data\<close> returns one course per kept row, in order. The \<open>total_hour\<close> of
  the course is the integer of the row's hours cell; its \<open>required_slots\<close> is the
  ceiling of total hours divided by \<open>HOUR_PER_SLOT\<close>, hence at least 1 when the hours
  are positive; the adjustment note of a course is printed if and only if its hours
  are not a multiple of \<open>HOUR_PER_SLOT\<close>, and the notes printed are exactly these, in
  course order. At 17 hours the count is 9 and the note is printed (the witness).
\<close>

theorem required_slots_is_ceiling:
  assumes "missing_cols real_columns = []" and "list_all readable (dropna sheet)"
  shows "\<exists>cs out. preprocess_data real_columns sheet = Inr (cs, out)
     \<and> length cs = length (dropna sheet)
     \<and> (\<forall>i < length cs.
          cell_total_hour (dropna sheet ! i) = HourValue (total_hour (snd (cs ! i)))
        \<and> required_slots (snd (cs ! i))
            = \<lceil>real_of_int (total_hour (snd (cs ! i))) / real_of_int HOUR_PER_SLOT\<rceil>
        \<and> (0 < total_hour (snd (cs ! i)) \<longrightarrow> 1 \<le> required_slots (snd (cs ! i)))
        \<and> (AdjustNote (name (snd (cs ! i))) (total_hour (snd (cs ! i)))
              (required_slots (snd (cs ! i))) \<in> set out
            \<longleftrightarrow> total_hour (snd (cs ! i)) mod HOUR_PER_SLOT \<noteq> 0))
     \<and> filter is_adjust_note out
         = [AdjustNote (name c) (total_hour c) (required_slots c).
              (cid, c) \<leftarrow> cs, total_hour c mod HOUR_PER_SLOT \<noteq> 0]"
proof -
  define cs where "cs = loaded sheet"
  define out where "out = report (dropna sheet) (loaded sheet)"
  have ok: "preprocess_data real_columns sheet = Inr (cs, out)"
    unfolding cs_def out_def using assms by (rule preprocess_data_ok)
  have nts: "filter is_adjust_note out
      = [AdjustNote (name c) (total_hour c) (required_slots c).
              (cid, c) \<leftarrow> cs, total_hour c mod HOUR_PER_SLOT \<noteq> 0]"
    unfolding out_def cs_def report_notes by (rule notes_of_loaded)
  have each: "cell_total_hour (dropna sheet ! i) = HourValue (total_hour (snd (cs ! i)))
        \<and> required_slots (snd (cs ! i))
            = \<lceil>real_of_int (total_hour (snd (cs ! i))) / real_of_int HOUR_PER_SLOT\<rceil>
        \<and> (0 < total_hour (snd (cs ! i)) \<longrightarrow> 1 \<le> required_slots (snd (cs ! i)))
        \<and> (AdjustNote (name (snd (cs ! i))) (total_hour (snd (cs ! i)))
              (required_slots (snd (cs ! i))) \<in> set out
            \<longleftrightarrow> total_hour (snd (cs ! i)) mod HOUR_PER_SLOT \<noteq> 0)"
    if i: "i < length cs" for i
  proof -
    let ?c = "snd (cs ! i)"
    from i have il: "i < length (dropna sheet)" by (simp add: cs_def loaded_length)
    then have c: "?c = row_course (dropna sheet ! i)" by (simp add: cs_def loaded_nth)
    from assms(2) il have "readable (dropna sheet ! i)" by (simp add: list_all_length)
    then have "converts (cell_total_hour (dropna sheet ! i))" by (simp add: readable_def)
    then have "cell_total_hour (dropna sheet ! i)
        = HourValue (hours_of (cell_total_hour (dropna sheet ! i)))"
      by (cases "cell_total_hour (dropna sheet ! i)") simp_all
    then have th: "cell_total_hour (dropna sheet ! i) = HourValue (total_hour ?c)"
      by (simp add: c row_course_def row_total_hour_def)
    have rs: "required_slots ?c = slots_for (total_hour ?c)"
      by (simp add: c row_course_def)
    have ce: "required_slots ?c
        = \<lceil>real_of_int (total_hour ?c) / real_of_int HOUR_PER_SLOT\<rceil>"
      unfolding rs by (rule slots_for_ceiling)
    have po: "0 < total_hour ?c \<longrightarrow> 1 \<le> required_slots ?c"
      unfolding rs by (intro impI slots_for_positive)
    have "AdjustNote (name ?c) (total_hour ?c) (required_slots ?c) \<in> set out
        \<longleftrightarrow> AdjustNote (name ?c) (total_hour ?c) (required_slots ?c)
              \<in> set (filter is_adjust_note out)"
      by simp
    also have "\<dots> \<longleftrightarrow> (\<exists>(cid, c) \<in> set cs. total_hour c mod HOUR_PER_SLOT \<noteq> 0
         \<and> name ?c = name c \<and> total_hour ?c = total_hour c
         \<and> required_slots ?c = required_slots c)"
      unfolding nts by (rule in_notes)
    also have "\<dots> \<longleftrightarrow> total_hour ?c mod HOUR_PER_SLOT \<noteq> 0"
    proof
      assume "\<exists>(cid, c) \<in> set cs. total_hour c mod HOUR_PER_SLOT \<noteq> 0
         \<and> name ?c = name c \<and> total_hour ?c = total_hour c
         \<and> required_slots ?c = required_slots c"
      then show "total_hour ?c mod HOUR_PER_SLOT \<noteq> 0" by auto
    next
      assume odd: "total_hour ?c mod HOUR_PER_SLOT \<noteq> 0"
      have "cs ! i \<in> set cs" using i by simp
      then have "(fst (cs ! i), ?c) \<in> set cs" by simp
      with odd show "\<exists>(cid, c) \<in> set cs. total_hour c mod HOUR_PER_SLOT \<noteq> 0
         \<and> name ?c = name c \<and> total_hour ?c = total_hour c
         \<and> required_slots ?c = required_slots c"
        by (intro bexI [of _ "(fst (cs ! i), snd (cs ! i))"]) auto
    qed
    finally have nt: "AdjustNote (name ?c) (total_hour ?c) (required_slots ?c) \<in> set out
        \<longleftrightarrow> total_hour ?c mod HOUR_PER_SLOT \<noteq> 0" .
    show ?thesis by (intro conjI) (rule th ce po nt)+
  qed
  have len: "length cs = length (dropna sheet)" by (simp add: cs_def loaded_length)
  from each have all: "\<forall>i < length cs.
          cell_total_hour (dropna sheet ! i) = HourValue (total_hour (snd (cs ! i)))
        \<and> required_slots (snd (cs ! i))
            = \<lceil>real_of_int (total_hour (snd (cs ! i))) / real_of_int HOUR_PER_SLOT\<rceil>
        \<and> (0 < total_hour (snd (cs ! i)) \<longrightarrow> 1 \<le> required_slots (snd (cs ! i)))
        \<and> (AdjustNote (name (snd (cs ! i))) (total_hour (snd (cs ! i)))
              (required_slots (snd (cs ! i))) \<in> set out
            \<longleftrightarrow> total_hour (snd (cs ! i)) mod HOUR_PER_SLOT \<noteq> 0)"
    by (intro allI impI)
  show ?thesis by (intro exI [of _ cs] exI [of _ out] conjI) (rule ok len all nts)+
qed

theorem required_slots_is_ceiling_witness:
  "missing_cols core_cols = []
   \<and> list_all readable (dropna [sample_row (TextStr (ustr ''Li'')) (HourValue 17)])
   \<and> preprocess_data core_cols [sample_row (TextStr (ustr ''Li'')) (HourValue 17)] =
     Inr ([(ustr ''C1'',
            \<lparr>name = ustr ''Algebra'', teacher = ustr ''Li'', classes = [ustr ''CS101''],
             room = ustr ''Lab'', total_hour = 17, required_slots = 9,
             hour_type = ustr ''theory''\<rparr>)],
          [ValidationHeader, AdjustNote (ustr ''Algebra'') 17 9, ResourceHeader 480,
           TotalDemand 9, TotalGap (- 471), TeacherHeader,
           TeacherLine (ustr ''Li'') 9 WithinCapacity, ClassHeader,
           ClassLine (ustr ''CS101'') 9 WithinCapacity, ReadOk 1])
   \<and> (9::int) = \<lceil>real_of_int 17 / real_of_int HOUR_PER_SLOT\<rceil>
   \<and> (17::int) mod HOUR_PER_SLOT \<noteq> 0"
proof -
  let ?sheet = "[sample_row (TextStr (ustr ''Li'')) (HourValue 17)]"
  let ?c = "\<lparr>name = ustr ''Algebra'', teacher = ustr ''Li'', classes = [ustr ''CS101''],
             room = ustr ''Lab'', total_hour = 17, required_slots = 9,
             hour_type = ustr ''theory''\<rparr>"
  let ?out = "[ValidationHeader, AdjustNote (ustr ''Algebra'') 17 9, ResourceHeader 480,
           TotalDemand 9, TotalGap (- 471), TeacherHeader,
           TeacherLine (ustr ''Li'') 9 WithinCapacity, ClassHeader,
           ClassLine (ustr ''CS101'') 9 WithinCapacity, ReadOk 1]"
  have d: "dropna ?sheet = ?sheet" by (simp add: dropna_def sample_row_complete)
  have r: "list_all readable (dropna ?sheet)"
    unfolding d by (simp add: sample_row_readable)
  have e: "preprocess_data core_cols ?sheet = Inr ([(ustr ''C1'', ?c)], ?out)"
    by (rule example_17)
  from required_slots_is_ceiling [OF missing_cols_core r]
  obtain cs out where p: "preprocess_data core_cols ?sheet = Inr (cs, out)"
    and a: "\<forall>i < length cs.
          cell_total_hour (dropna ?sheet ! i) = HourValue (total_hour (snd (cs ! i)))
        \<and> required_slots (snd (cs ! i))
            = \<lceil>real_of_int (total_hour (snd (cs ! i))) / real_of_int HOUR_PER_SLOT\<rceil>
        \<and> (0 < total_hour (snd (cs ! i)) \<longrightarrow> 1 \<le> required_slots (snd (cs ! i)))
        \<and> (AdjustNote (name (snd (cs ! i))) (total_hour (snd (cs ! i)))
              (required_slots (snd (cs ! i))) \<in> set out
            \<longleftrightarrow> total_hour (snd (cs ! i)) mod HOUR_PER_SLOT \<noteq> 0)"
    by blast
  from p e have cs: "cs = [(ustr ''C1'', ?c)]" and out: "out = ?out" by simp_all
  from a have "(9::int) = \<lceil>real_of_int 17 / real_of_int HOUR_PER_SLOT\<rceil>
     \<and> (17::int) mod HOUR_PER_SLOT \<noteq> 0"
    unfolding cs out by simp
  then have n: "(9::int) = \<lceil>real_of_int 17 / real_of_int HOUR_PER_SLOT\<rceil>"
    and o: "(17::int) mod HOUR_PER_SLOT \<noteq> 0" by simp_all
  show ?thesis by (intro conjI) (rule missing_cols_core r e n o)+
qed

section \<open>The resource gap report\<close>

lemma dict_get_set:
  "dict_get (dict_set d k v) k' dflt = (if k' = k then v else dict_get d k' dflt)"
  by (induction d) (auto simp: dict_get_def)

lemma dict_set_keys: "fst ` set (dict_set d k v) = insert k (fst ` set d)"
  by (induction d k v rule: dict_set.induct) (simp_all add: insert_commute)

lemma dict_set_distinct: "distinct (map fst d) \<Longrightarrow> distinct (map fst (dict_set d k v))"
  by (induction d) (auto simp: dict_set_keys)

lemma dict_get_member:
  "distinct (map fst d) \<Longrightarrow> (k, v) \<in> set d \<Longrightarrow> dict_get d k dflt = v"
  by (simp add: dict_get_def)

lemma add_classes_get:
  "dict_get (foldl (\<lambda>d cls. dict_set d cls (dict_get d cls 0 + n)) d cl) c 0
     = dict_get d c 0 + n * int (count_list cl c)"
  by (induction cl arbitrary: d) (auto simp: dict_get_set algebra_simps)

lemma add_classes_keys:
  "fst ` set (foldl (\<lambda>d cls. dict_set d cls (dict_get d cls 0 + n)) d cl)
     = fst ` set d \<union> set cl"
  by (induction cl arbitrary: d) (auto simp: dict_set_keys)

lemma add_classes_distinct:
  "distinct (map fst d) \<Longrightarrow>
     distinct (map fst (foldl (\<lambda>d cls. dict_set d cls (dict_get d cls 0 + n)) d cl))"
  by (induction cl arbitrary: d) (auto simp: dict_set_distinct)

lemma tally_teachers_get:
  "dict_get (fst (foldl tally_course (ts, cd) cs)) t 0 = dict_get ts t 0 + teacher_demand cs t"
  by (induction cs arbitrary: ts cd)
    (auto simp: tally_course_def teacher_demand_def dict_get_set Let_def)

lemma tally_teachers_keys:
  "fst ` set (fst (foldl tally_course (ts, cd) cs))
     = fst ` set ts \<union> (\<lambda>(cid, info). teacher info) ` set cs"
  by (induction cs arbitrary: ts cd)
    (auto simp: tally_course_def Let_def dict_set_keys)

lemma tally_teachers_distinct:
  "distinct (map fst ts) \<Longrightarrow> distinct (map fst (fst (foldl tally_course (ts, cd) cs)))"
  by (induction cs arbitrary: ts cd)
    (auto simp: tally_course_def Let_def dict_set_distinct)

lemma tally_classes_get:
  "dict_get (snd (foldl tally_course (ts, cd) cs)) c 0
     = dict_get cd c 0 + (\<Sum>(cid, info) \<leftarrow> cs. required_slots info * int (count_list (classes info) c))"
  by (induction cs arbitrary: ts cd)
    (auto simp: tally_course_def Let_def add_classes_get)

lemma tally_classes_keys:
  "fst ` set (snd (foldl tally_course (ts, cd) cs))
     = fst ` set cd \<union> (\<Union>(cid, info) \<in> set cs. set (classes info))"
  by (induction cs arbitrary: ts cd)
    (auto simp: tally_course_def Let_def add_classes_keys)

lemma tally_classes_distinct:
  "distinct (map fst cd) \<Longrightarrow> distinct (map fst (snd (foldl tally_course (ts, cd) cs)))"
  by (induction cs arbitrary: ts cd)
    (auto simp: tally_course_def Let_def add_classes_distinct)

lemma count_list_distinct: "distinct xs \<Longrightarrow> count_list xs x = (if x \<in> set xs then 1 else 0)"
  by (induction xs) auto

lemma class_demand_distinct:
  assumes "\<forall>(cid, info) \<in> set cs. distinct (classes info)"
  shows "(\<Sum>(cid, info) \<leftarrow> cs. required_slots info * int (count_list (classes info) c))
     = class_demand cs c"
  using assms
proof (induction cs)
  case Nil
  then show ?case by (simp add: class_demand_def)
next
  case (Cons x cs)
  obtain cid info where x: "x = (cid, info)" by (cases x)
  from Cons.prems x have d: "distinct (classes info)" by simp
  then have "count_list (classes info) c = (if c \<in> set (classes info) then 1 else 0)"
    by (rule count_list_distinct)
  with Cons x show ?case by (auto simp: class_demand_def)
qed

lemma distinct_map_insort:
  "distinct (map g (insort_key f x xs)) \<longleftrightarrow> g x \<notin> g ` set xs \<and> distinct (map g xs)"
  by (induction xs) (auto simp: set_insort_key)

lemma distinct_map_sort: "distinct (map g (sort_key f xs)) \<longleftrightarrow> distinct (map g xs)"
  by (induction xs) (simp_all add: sort_key_simps distinct_map_insort)

lemma top5_subset: "set (top5 xs) \<subseteq> set xs"
  unfolding top5_def using set_take_subset [of 5 "sort_key (\<lambda>x. - snd x) xs"] by simp

lemma top5_length: "length (top5 xs) = min 5 (length xs)"
  by (simp add: top5_def min.commute)

lemma top5_distinct: "distinct (map fst xs) \<Longrightarrow> distinct (map fst (top5 xs))"
  by (simp add: top5_def take_map [symmetric] distinct_map_sort del: take_map)

lemma top5_rest:
  assumes "z \<in> set xs" and "z \<notin> set (top5 xs)" and "y \<in> set (top5 xs)"
  shows "snd z \<le> snd y"
proof -
  define ys where "ys = sort_key (\<lambda>x. - snd x) xs"
  have "sorted (map (\<lambda>x. - snd x) ys)" unfolding ys_def by (rule sorted_sort_key)
  then have "sorted (map (\<lambda>x. - snd x) (take 5 ys) @ map (\<lambda>x. - snd x) (drop 5 ys))"
    by (simp only: map_append [symmetric] append_take_drop_id)
  then have le: "\<forall>a \<in> set (take 5 ys). \<forall>b \<in> set (drop 5 ys). - snd a \<le> - snd b"
    by (simp add: sorted_append)
  have "z \<in> set ys" using assms(1) by (simp add: ys_def)
  moreover have "set ys = set (take 5 ys) \<union> set (drop 5 ys)"
    by (simp only: set_append [symmetric] append_take_drop_id)
  moreover have "z \<notin> set (take 5 ys)" using assms(2) by (simp add: top5_def ys_def)
  ultimately have "z \<in> set (drop 5 ys)" by blast
  moreover from assms(3) have "y \<in> set (take 5 ys)" by (simp add: top5_def ys_def)
  ultimately show ?thesis using le by fastforce
qed

lemma gap_status_of_eq:
  "gap_status_of slots a = (if a < slots then Shortfall (slots - a) else WithinCapacity)"
  by (auto simp: gap_status_of_def Let_def)

lemma gap_lines_fst: "map fst (gap_lines a d) = map fst (top5 d)"
  by (simp add: gap_lines_def case_prod_beta comp_def)

lemma gap_lines_member:
  "(k, slots, st) \<in> set (gap_lines a d) \<longleftrightarrow>
     (k, slots) \<in> set (top5 d) \<and> st = gap_status_of slots a"
  by (auto simp: gap_lines_def)

lemma gap_lines_entries:
  assumes "distinct (map fst d)" and "(k, slots, st) \<in> set (gap_lines a d)"
  shows "k \<in> fst ` set d \<and> slots = dict_get d k 0
     \<and> st = (if a < slots then Shortfall (slots - a) else WithinCapacity)"
proof -
  from assms(2) have m: "(k, slots) \<in> set (top5 d)" and st: "st = gap_status_of slots a"
    by (simp_all add: gap_lines_member)
  from m top5_subset have md: "(k, slots) \<in> set d" by blast
  then have "k \<in> fst ` set d" by force
  moreover from assms(1) md have "dict_get d k 0 = slots" by (rule dict_get_member)
  ultimately show ?thesis using st by (simp add: gap_status_of_eq)
qed

lemma gap_lines_length: "distinct (map fst d) \<Longrightarrow> length (gap_lines a d) = min 5 (card (fst ` set d))"
proof -
  assume "distinct (map fst d)"
  then have "card (set (map fst d)) = length (map fst d)" by (rule distinct_card)
  then have "card (fst ` set d) = length d" by simp
  then show ?thesis by (simp add: gap_lines_def top5_length)
qed

lemma gap_lines_distinct: "distinct (map fst d) \<Longrightarrow> distinct (map fst (gap_lines a d))"
  unfolding gap_lines_fst by (rule top5_distinct)

lemma gap_lines_rest:
  assumes d: "distinct (map fst d)" and k: "k \<in> fst ` set d"
    and nk: "k \<notin> fst ` set (gap_lines a d)" and l: "(k', slots, st) \<in> set (gap_lines a d)"
  shows "dict_get d k 0 \<le> slots"
proof -
  from k obtain v where kv: "(k, v) \<in> set d" by force
  with d have g: "dict_get d k 0 = v" by (rule dict_get_member)
  have "(k, v) \<notin> set (top5 d)"
  proof
    assume "(k, v) \<in> set (top5 d)"
    then have "(k, v, gap_status_of v a) \<in> set (gap_lines a d)" by (simp add: gap_lines_member)
    then have "k \<in> fst ` set (gap_lines a d)" by force
    with nk show False ..
  qed
  moreover from l have "(k', slots) \<in> set (top5 d)" by (simp add: gap_lines_member)
  ultimately have "snd (k, v) \<le> snd (k', slots)" using kv by (intro top5_rest)
  with g show ?thesis by simp
qed

lemma report_teacher_gap_lines:
  "teacher_lines (report df cs)
     = gap_lines (int (length TIMES)) (fst (foldl tally_course ([], []) cs))"
  by (simp only: report_teacher_lines gap_lines_def)

lemma report_class_gap_lines:
  "class_lines (report df cs)
     = gap_lines (int (length TIMES)) (snd (foldl tally_course ([], []) cs))"
  by (simp only: report_class_lines gap_lines_def)

lemma teacher_values: "resource_values TeacherDim cs = (\<lambda>(cid, info). teacher info) ` set cs"
  by (auto simp: resource_values_def)

lemma class_values: "resource_values ClassDim cs = (\<Union>(cid, info) \<in> set cs. set (classes info))"
  by (auto simp: resource_values_def)

lemma dict_get_nil: "dict_get [] k dflt = dflt"
  by (simp add: dict_get_def)

lemma tallied_teachers:
  "distinct (map fst (fst (foldl tally_course ([], []) cs)))"
  "fst ` set (fst (foldl tally_course ([], []) cs)) = resource_values TeacherDim cs"
  "dict_get (fst (foldl tally_course ([], []) cs)) t 0 = teacher_demand cs t"
  using tally_teachers_get [of "[]" "[]" cs t]
  by (simp_all add: tally_teachers_distinct tally_teachers_keys teacher_values dict_get_nil)

lemma tallied_classes:
  "distinct (map fst (snd (foldl tally_course ([], []) cs)))"
  "fst ` set (snd (foldl tally_course ([], []) cs)) = resource_values ClassDim cs"
  "dict_get (snd (foldl tally_course ([], []) cs)) c 0
     = (\<Sum>(cid, info) \<leftarrow> cs. required_slots info * int (count_list (classes info) c))"
  using tally_classes_get [of "[]" "[]" cs c]
  by (simp_all add: tally_classes_distinct tally_classes_keys class_values dict_get_nil)


lemma top5_sorted: "sorted_wrt (\<lambda>a b. b \<le> a) (map snd (top5 xs))"
proof -
  have "sorted (map (\<lambda>x. - snd x) (sort_key (\<lambda>x. - snd x) xs))" by (rule sorted_sort_key)
  then have "sorted_wrt (\<lambda>x y. snd y \<le> snd x) (sort_key (\<lambda>x. - snd x) xs)"
    by (simp add: sorted_wrt_map)
  then have "sorted_wrt (\<lambda>x y. snd y \<le> snd x) (take 5 (sort_key (\<lambda>x. - snd x) xs))"
    by (rule sorted_wrt_take)
  then show ?thesis by (simp add: top5_def sorted_wrt_map del: take_map)
qed

lemma gap_lines_demands: "map (\<lambda>(t, slots, st). slots) (gap_lines a d) = map snd (top5 d)"
  by (simp add: gap_lines_def case_prod_beta comp_def)

lemma gap_lines_sorted:
  "sorted_wrt (\<lambda>a b. b \<le> a) (map (\<lambda>(t, slots, st). slots) (gap_lines a d))"
  unfolding gap_lines_demands by (rule top5_sorted)

text \<open>
  C8, as the code has it. With all required columns present and every kept row
  readable, \<open>preprocess_data\<close> returns and prints the report. The tally gives every
  teacher the sum of \<open>required_slots\<close> over the courses of the teacher and, when no
  course lists a class twice, every class the sum over the courses that list it, a
  course counting in full for each of its classes. The report prints, per dimension,
  only the five entries of highest demand (fewer when there are fewer resources), each
  resource at most once and in descending order of demand: a printed line carries this
  demand and is flagged, with the excess as the gap, exactly when the demand exceeds
  the number of slots; a resource that is not printed has a demand no larger than any
  printed one.
\<close>

theorem gap_report_top_five:
  assumes "missing_cols real_columns = []" and "list_all readable (dropna sheet)"
  shows "\<exists>cs out. preprocess_data real_columns sheet = Inr (cs, out)
     \<and> (\<forall>(t, slots, st) \<in> set (teacher_lines out).
            t \<in> resource_values TeacherDim cs \<and> slots = teacher_demand cs t
          \<and> st = (if int (length TIMES) < slots then Shortfall (slots - int (length TIMES))
                  else WithinCapacity))
     \<and> length (teacher_lines out) = min 5 (card (resource_values TeacherDim cs))
     \<and> distinct (map fst (teacher_lines out))
     \<and> sorted_wrt (\<lambda>a b. b \<le> a) (map (\<lambda>(t, slots, st). slots) (teacher_lines out))
     \<and> (\<forall>t \<in> resource_values TeacherDim cs - fst ` set (teacher_lines out).
          \<forall>(t', slots, st) \<in> set (teacher_lines out). teacher_demand cs t \<le> slots)
     \<and> length (class_lines out) = min 5 (card (resource_values ClassDim cs))
     \<and> distinct (map fst (class_lines out))
     \<and> sorted_wrt (\<lambda>a b. b \<le> a) (map (\<lambda>(c, slots, st). slots) (class_lines out))
     \<and> ((\<forall>(cid, info) \<in> set cs. distinct (classes info)) \<longrightarrow>
          (\<forall>(c, slots, st) \<in> set (class_lines out).
              c \<in> resource_values ClassDim cs \<and> slots = class_demand cs c
            \<and> st = (if int (length TIMES) < slots then Shortfall (slots - int (length TIMES))
                    else WithinCapacity))
        \<and> (\<forall>c \<in> resource_values ClassDim cs - fst ` set (class_lines out).
             \<forall>(c', slots, st) \<in> set (class_lines out). class_demand cs c \<le> slots))"
proof -
  let ?a = "int (length TIMES)"
  define cs where "cs = loaded sheet"
  define out where "out = report (dropna sheet) cs"
  let ?ts = "fst (foldl tally_course ([], []) cs)"
  let ?cd = "snd (foldl tally_course ([], []) cs)"
  have ok: "preprocess_data real_columns sheet = Inr (cs, out)"
    unfolding cs_def out_def using assms by (rule preprocess_data_ok)
  have tl: "teacher_lines out = gap_lines ?a ?ts"
    unfolding out_def by (rule report_teacher_gap_lines)
  have cl: "class_lines out = gap_lines ?a ?cd"
    unfolding out_def by (rule report_class_gap_lines)
  note T = tallied_teachers [of cs]
  note C = tallied_classes [of cs]
  have 1: "\<forall>(t, slots, st) \<in> set (teacher_lines out).
            t \<in> resource_values TeacherDim cs \<and> slots = teacher_demand cs t
          \<and> st = (if ?a < slots then Shortfall (slots - ?a) else WithinCapacity)"
  proof (intro ballI, clarify)
    fix t slots st
    assume "(t, slots, st) \<in> set (teacher_lines out)"
    then have "(t, slots, st) \<in> set (gap_lines ?a ?ts)" by (simp only: tl)
    from gap_lines_entries [OF T(1) this]
    show "t \<in> resource_values TeacherDim cs \<and> slots = teacher_demand cs t
          \<and> st = (if ?a < slots then Shortfall (slots - ?a) else WithinCapacity)"
      by (simp only: T(2) T(3))
  qed
  have 2: "length (teacher_lines out) = min 5 (card (resource_values TeacherDim cs))"
    unfolding tl using gap_lines_length [OF T(1), of ?a] by (simp only: T(2))
  have 3: "distinct (map fst (teacher_lines out))"
    unfolding tl using T(1) by (rule gap_lines_distinct)
  have 4: "\<forall>t \<in> resource_values TeacherDim cs - fst ` set (teacher_lines out).
          \<forall>(t', slots, st) \<in> set (teacher_lines out). teacher_demand cs t \<le> slots"
  proof (intro ballI, clarify)
    fix t t' slots st
    assume t: "t \<in> resource_values TeacherDim cs" and n: "t \<notin> fst ` set (teacher_lines out)"
      and l: "(t', slots, st) \<in> set (teacher_lines out)"
    from t have "t \<in> fst ` set ?ts" by (simp only: T(2))
    moreover have "t \<notin> fst ` set (gap_lines ?a ?ts)" using n unfolding tl .
    moreover from l have "(t', slots, st) \<in> set (gap_lines ?a ?ts)" by (simp only: tl)
    ultimately have "dict_get ?ts t 0 \<le> slots" using T(1) by (intro gap_lines_rest)
    then show "teacher_demand cs t \<le> slots" by (simp only: T(3))
  qed
  have 5: "length (class_lines out) = min 5 (card (resource_values ClassDim cs))"
    unfolding cl using gap_lines_length [OF C(1), of ?a] by (simp only: C(2))
  have 6: "distinct (map fst (class_lines out))"
    unfolding cl using C(1) by (rule gap_lines_distinct)
  have s1: "sorted_wrt (\<lambda>a b. b \<le> a) (map (\<lambda>(t, slots, st). slots) (teacher_lines out))"
    unfolding tl by (rule gap_lines_sorted)
  have s2: "sorted_wrt (\<lambda>a b. b \<le> a) (map (\<lambda>(c, slots, st). slots) (class_lines out))"
    unfolding cl by (rule gap_lines_sorted)
  have 7: "(\<forall>(cid, info) \<in> set cs. distinct (classes info)) \<longrightarrow>
          (\<forall>(c, slots, st) \<in> set (class_lines out).
              c \<in> resource_values ClassDim cs \<and> slots = class_demand cs c
            \<and> st = (if ?a < slots then Shortfall (slots - ?a) else WithinCapacity))
        \<and> (\<forall>c \<in> resource_values ClassDim cs - fst ` set (class_lines out).
             \<forall>(c', slots, st) \<in> set (class_lines out). class_demand cs c \<le> slots)"
  proof (intro impI conjI)
    assume d: "\<forall>(cid, info) \<in> set cs. distinct (classes info)"
    have g: "dict_get ?cd c 0 = class_demand cs c" for c
      unfolding C(3) using d by (rule class_demand_distinct)
    show "\<forall>(c, slots, st) \<in> set (class_lines out).
              c \<in> resource_values ClassDim cs \<and> slots = class_demand cs c
            \<and> st = (if ?a < slots then Shortfall (slots - ?a) else WithinCapacity)"
    proof (intro ballI, clarify)
      fix c slots st
      assume "(c, slots, st) \<in> set (class_lines out)"
      then have "(c, slots, st) \<in> set (gap_lines ?a ?cd)" by (simp only: cl)
      from gap_lines_entries [OF C(1) this]
      show "c \<in> resource_values ClassDim cs \<and> slots = class_demand cs c
            \<and> st = (if ?a < slots then Shortfall (slots - ?a) else WithinCapacity)"
        by (simp only: C(2) g)
    qed
    show "\<forall>c \<in> resource_values ClassDim cs - fst ` set (class_lines out).
             \<forall>(c', slots, st) \<in> set (class_lines out). class_demand cs c \<le> slots"
    proof (intro ballI, clarify)
      fix c c' slots st
      assume c: "c \<in> resource_values ClassDim cs" and n: "c \<notin> fst ` set (class_lines out)"
        and l: "(c', slots, st) \<in> set (class_lines out)"
      from c have "c \<in> fst ` set ?cd" by (simp only: C(2))
      moreover have "c \<notin> fst ` set (gap_lines ?a ?cd)" using n unfolding cl .
      moreover from l have "(c', slots, st) \<in> set (gap_lines ?a ?cd)" by (simp only: cl)
      ultimately have "dict_get ?cd c 0 \<le> slots" using C(1) by (intro gap_lines_rest)
      then show "class_demand cs c \<le> slots" by (simp only: g)
    qed
  qed
  show ?thesis
    by (intro exI [of _ cs] exI [of _ out] conjI) (rule ok 1 2 3 s1 4 5 6 s2 7)+
qed

lemma sample_rows_kept:
  "dropna three_rows = three_rows" "dropna four_rows = four_rows"
  "dropna six_teachers = six_teachers"
  by (simp_all add: dropna_def three_rows_def four_rows_def six_teachers_def
      sample_row_complete)

lemma sample_rows_readable:
  "list_all readable (dropna three_rows)" "list_all readable (dropna four_rows)"
  "list_all readable (dropna six_teachers)"
  unfolding sample_rows_kept
  by (simp_all add: three_rows_def four_rows_def six_teachers_def sample_row_readable)

lemmas eval_report =
  report_teacher_lines report_class_lines loaded_def sample_rows_kept
  sample_row_def row_course_def row_fields
  split_classes_def str_strip_def isspace_def ustr_def delim_a_def delim_b_def
  slots_for_def HOUR_PER_SLOT_def tally_course_def dict_get_def
  top5_def gap_status_of_def TIMES_length Let_def

lemma three_rows_lines:
  "teacher_lines (report (dropna three_rows) (loaded three_rows))
     = [(ustr ''Li'', 450, WithinCapacity)]"
  unfolding report_teacher_lines loaded_def sample_rows_kept
  by (simp add: three_rows_def eval_report)

lemma four_rows_lines:
  "teacher_lines (report (dropna four_rows) (loaded four_rows))
     = [(ustr ''Li'', 500, Shortfall 20)]"
  unfolding report_teacher_lines loaded_def sample_rows_kept
  by (simp add: four_rows_def three_rows_def eval_report)

lemma six_teachers_lines:
  "teacher_lines (report (dropna six_teachers) (loaded six_teachers))
     = [(ustr ''T1'', 500, Shortfall 20), (ustr ''T2'', 500, Shortfall 20),
        (ustr ''T3'', 500, Shortfall 20), (ustr ''T4'', 500, Shortfall 20),
        (ustr ''T5'', 500, Shortfall 20)]"
  unfolding report_teacher_lines loaded_def sample_rows_kept
  by (simp add: six_teachers_def eval_report)

lemma six_teachers_demand:
  "teacher_demand (loaded six_teachers) (ustr ''T6'') = 500"
  unfolding loaded_def sample_rows_kept
  by (simp add: six_teachers_def teacher_demand_def sample_row_def row_course_def row_fields
      str_strip_def isspace_def ustr_def slots_for_def HOUR_PER_SLOT_def)

theorem gap_report_witness:
  "missing_cols core_cols = []
   \<and> list_all readable (dropna three_rows)
   \<and> teacher_lines (printed_of (preprocess_data core_cols three_rows))
     = [(ustr ''Li'', 450, WithinCapacity)]
   \<and> teacher_demand (courses_of (preprocess_data core_cols three_rows)) (ustr ''Li'') = 450
   \<and> list_all readable (dropna four_rows)
   \<and> teacher_lines (printed_of (preprocess_data core_cols four_rows))
     = [(ustr ''Li'', 500, Shortfall 20)]
   \<and> teacher_demand (courses_of (preprocess_data core_cols four_rows)) (ustr ''Li'') = 500"
proof -
  have p3: "preprocess_data core_cols three_rows
      = Inr (loaded three_rows, report (dropna three_rows) (loaded three_rows))"
    using missing_cols_core sample_rows_readable(1) by (rule preprocess_data_ok)
  have p4: "preprocess_data core_cols four_rows
      = Inr (loaded four_rows, report (dropna four_rows) (loaded four_rows))"
    using missing_cols_core sample_rows_readable(2) by (rule preprocess_data_ok)
  from gap_report_top_five [OF missing_cols_core sample_rows_readable(1)]
  obtain cs out where q3: "preprocess_data core_cols three_rows = Inr (cs, out)"
    and a3: "\<forall>(t, slots, st) \<in> set (teacher_lines out).
            t \<in> resource_values TeacherDim cs \<and> slots = teacher_demand cs t
          \<and> st = (if int (length TIMES) < slots then Shortfall (slots - int (length TIMES))
                  else WithinCapacity)"
    by blast
  from q3 p3 have c3: "cs = loaded three_rows"
    and o3: "out = report (dropna three_rows) (loaded three_rows)" by auto
  from a3 have d3: "teacher_demand (loaded three_rows) (ustr ''Li'') = 450"
    unfolding c3 o3 three_rows_lines by simp
  from gap_report_top_five [OF missing_cols_core sample_rows_readable(2)]
  obtain cs' out' where q4: "preprocess_data core_cols four_rows = Inr (cs', out')"
    and a4: "\<forall>(t, slots, st) \<in> set (teacher_lines out').
            t \<in> resource_values TeacherDim cs' \<and> slots = teacher_demand cs' t
          \<and> st = (if int (length TIMES) < slots then Shortfall (slots - int (length TIMES))
                  else WithinCapacity)"
    by blast
  from q4 p4 have c4: "cs' = loaded four_rows"
    and o4: "out' = report (dropna four_rows) (loaded four_rows)" by auto
  from a4 have d4: "teacher_demand (loaded four_rows) (ustr ''Li'') = 500"
    unfolding c4 o4 four_rows_lines by simp
  show ?thesis
    unfolding p3 p4 printed_of.simps courses_of.simps
    by (intro conjI)
      (rule missing_cols_core sample_rows_readable three_rows_lines d3 four_rows_lines d4)+
qed

text \<open>
  C8 as stated fails: of six teachers who each need 500 of the 480 slots, five are
  printed and flagged; the sixth exceeds the capacity as well and is not reported.
\<close>

theorem sixth_overloaded_teacher_not_flagged:
  "teacher_lines (printed_of (preprocess_data core_cols six_teachers))
     = [(ustr ''T1'', 500, Shortfall 20), (ustr ''T2'', 500, Shortfall 20),
        (ustr ''T3'', 500, Shortfall 20), (ustr ''T4'', 500, Shortfall 20),
        (ustr ''T5'', 500, Shortfall 20)]
   \<and> teacher_demand (courses_of (preprocess_data core_cols six_teachers)) (ustr ''T6'') = 500
   \<and> length TIMES = 480"
proof -
  have p: "preprocess_data core_cols six_teachers
      = Inr (loaded six_teachers, report (dropna six_teachers) (loaded six_teachers))"
    using missing_cols_core sample_rows_readable(3) by (rule preprocess_data_ok)
  show ?thesis
    unfolding p printed_of.simps courses_of.simps
    by (intro conjI) (rule six_teachers_lines six_teachers_demand TIMES_length)+
qed

end
